theory Spec2Isabelle
  imports Complex_Main
begin

section \<open>JavaScript numbers\<close>

text \<open>
  A JavaScript \<^verbatim>\<open>number\<close> is an IEEE-754 binary64 value. The model keeps the three
  special values apart from the finite ones and follows IEEE-754 wherever a special value
  is produced or consumed (\<^verbatim>\<open>0/0\<close>, \<^verbatim>\<open>Infinity - Infinity\<close>, \<^verbatim>\<open>Math.cos(NaN)\<close>,
  \<^verbatim>\<open>Math.max(NaN, x)\<close>, \<^verbatim>\<open>Math.log10(0)\<close>, ...). On finite values the binary64 operations
  are taken exact: rounding to 53 bits, and overflow and underflow of a binary64 result,
  are abstracted away. The one exception is the product \<^verbatim>\<open>duration * sampleRate\<close> of the
  generators, whose rounding decides an integer, the number of samples: it is rounded as
  binary64 does (\<open>binary64_mul\<close> below). The two zeros are not distinguished; a zero
  divisor is read as \<^verbatim>\<open>+0\<close>.
\<close>

datatype number = Num real | PosInf | NegInf | NaN

fun is_finite :: "number \<Rightarrow> bool" where
  "is_finite (Num x) = True"
| "is_finite v = False"

fun num_neg :: "number \<Rightarrow> number" where
  "num_neg (Num a) = Num (- a)"
| "num_neg PosInf = NegInf"
| "num_neg NegInf = PosInf"
| "num_neg NaN = NaN"

fun num_add :: "number \<Rightarrow> number \<Rightarrow> number" where
  "num_add (Num a) (Num b) = Num (a + b)"
| "num_add NaN v = NaN"
| "num_add v NaN = NaN"
| "num_add PosInf NegInf = NaN"
| "num_add NegInf PosInf = NaN"
| "num_add PosInf v = PosInf"
| "num_add v PosInf = PosInf"
| "num_add NegInf v = NegInf"
| "num_add v NegInf = NegInf"

definition num_sub :: "number \<Rightarrow> number \<Rightarrow> number" where
  "num_sub a b = num_add a (num_neg b)"

fun num_mul :: "number \<Rightarrow> number \<Rightarrow> number" where
  "num_mul (Num a) (Num b) = Num (a * b)"
| "num_mul NaN v = NaN"
| "num_mul v NaN = NaN"
| "num_mul (Num a) PosInf = (if a = 0 then NaN else if 0 < a then PosInf else NegInf)"
| "num_mul (Num a) NegInf = (if a = 0 then NaN else if 0 < a then NegInf else PosInf)"
| "num_mul PosInf (Num b) = (if b = 0 then NaN else if 0 < b then PosInf else NegInf)"
| "num_mul NegInf (Num b) = (if b = 0 then NaN else if 0 < b then NegInf else PosInf)"
| "num_mul PosInf PosInf = PosInf"
| "num_mul PosInf NegInf = NegInf"
| "num_mul NegInf PosInf = NegInf"
| "num_mul NegInf NegInf = PosInf"

fun num_div :: "number \<Rightarrow> number \<Rightarrow> number" where
  "num_div (Num a) (Num b) =
     (if b = 0 then (if a = 0 then NaN else if 0 < a then PosInf else NegInf)
      else Num (a / b))"
| "num_div NaN v = NaN"
| "num_div v NaN = NaN"
| "num_div (Num a) v = Num 0"
| "num_div PosInf (Num b) = (if 0 \<le> b then PosInf else NegInf)"
| "num_div NegInf (Num b) = (if 0 \<le> b then NegInf else PosInf)"
| "num_div v w = NaN"

text \<open>\<^verbatim>\<open>Math.cos\<close>, \<^verbatim>\<open>Math.sin\<close>, \<^verbatim>\<open>Math.sqrt\<close>, \<^verbatim>\<open>Math.log10\<close>, \<^verbatim>\<open>Math.max\<close>
  (of two arguments) and \<^verbatim>\<open>Math.floor\<close>.\<close>

fun Math_cos :: "number \<Rightarrow> number" where
  "Math_cos (Num x) = Num (cos x)"
| "Math_cos v = NaN"

fun Math_sin :: "number \<Rightarrow> number" where
  "Math_sin (Num x) = Num (sin x)"
| "Math_sin v = NaN"

fun Math_sqrt :: "number \<Rightarrow> number" where
  "Math_sqrt (Num x) = (if x < 0 then NaN else Num (sqrt x))"
| "Math_sqrt PosInf = PosInf"
| "Math_sqrt v = NaN"

fun Math_log10 :: "number \<Rightarrow> number" where
  "Math_log10 (Num x) = (if x < 0 then NaN else if x = 0 then NegInf else Num (log 10 x))"
| "Math_log10 PosInf = PosInf"
| "Math_log10 v = NaN"

fun Math_max :: "number \<Rightarrow> number \<Rightarrow> number" where
  "Math_max (Num a) (Num b) = Num (max a b)"
| "Math_max NaN v = NaN"
| "Math_max v NaN = NaN"
| "Math_max PosInf v = PosInf"
| "Math_max v PosInf = PosInf"
| "Math_max NegInf v = v"
| "Math_max v NegInf = v"

fun Math_floor :: "number \<Rightarrow> number" where
  "Math_floor (Num x) = Num (of_int \<lfloor>x\<rfloor>)"
| "Math_floor v = v"

text \<open>The constant \<^verbatim>\<open>Math.PI\<close>.\<close>

definition Math_PI :: number where
  "Math_PI = Num pi"

text \<open>Truthiness of a number, as the operator \<^verbatim>\<open>||\<close> tests it: \<^verbatim>\<open>0\<close> and \<^verbatim>\<open>NaN\<close> are
  falsy.\<close>

fun truthy :: "number \<Rightarrow> bool" where
  "truthy (Num x) = (x \<noteq> 0)"
| "truthy NaN = False"
| "truthy v = True"

subsection \<open>Rounding to binary64\<close>

text \<open>
  The binary64 value of a real number: round to nearest, ties to even, with 53 significant
  bits. The unit in the last place of \<open>x\<close> is \<open>2^(e - 52)\<close> for the exponent
  \<open>e = \<lfloor>log\<^sub>2 |x|\<rfloor>\<close>, and \<open>2^(-1074)\<close> in the subnormal range; a rounded magnitude of
  \<open>2^1024\<close> or more is an infinity. \<open>binary64_mul\<close> is the operator \<^verbatim>\<open>*\<close> with this
  rounding.
\<close>

definition pow2 :: "int \<Rightarrow> real" where
  "pow2 e = (if 0 \<le> e then 2 ^ nat e else 1 / 2 ^ nat (- e))"

definition ulp64 :: "real \<Rightarrow> real" where
  "ulp64 x = pow2 (max \<lfloor>log 2 \<bar>x\<bar>\<rfloor> (- 1022) - 52)"

definition round_half_even :: "real \<Rightarrow> int" where
  "round_half_even q =
     (let f = \<lfloor>q\<rfloor> in
      if q - of_int f < 1 / 2 then f
      else if 1 / 2 < q - of_int f then f + 1
      else if even f then f else f + 1)"

definition round64 :: "real \<Rightarrow> number" where
  "round64 x =
     (if x = 0 then Num 0
      else let y = of_int (round_half_even (x / ulp64 x)) * ulp64 x
           in if 2 ^ 1024 \<le> \<bar>y\<bar> then (if 0 < x then PosInf else NegInf) else Num y)"

fun binary64_mul :: "number \<Rightarrow> number \<Rightarrow> number" where
  "binary64_mul (Num a) (Num b) = round64 (a * b)"
| "binary64_mul v w = num_mul v w"

subsection \<open>Narrowing to binary32\<close>

text \<open>
  A store into a \<^verbatim>\<open>Float32Array\<close> converts the value to binary32, rounding to nearest,
  ties to even. A finite value whose magnitude reaches \<open>2^128 - 2^103\<close> (the largest
  binary32 value plus half a unit in the last place) becomes an infinity. Below that
  bound the model keeps the value: rounding to 24 bits is abstracted away.
\<close>

definition f32_threshold :: real where
  "f32_threshold = 2 ^ 128 - 2 ^ 103"

fun fround :: "number \<Rightarrow> number" where
  "fround (Num x) =
     (if f32_threshold \<le> \<bar>x\<bar> then (if 0 < x then PosInf else NegInf) else Num x)"
| "fround v = v"

text \<open>The values an element of a \<^verbatim>\<open>Float32Array\<close> can hold.\<close>

definition is_f32 :: "number \<Rightarrow> bool" where
  "is_f32 v = (fround v = v)"

section \<open>Outcomes, typed arrays and counting loops\<close>

datatype error = RangeError | Error string

text \<open>A call returns a value, throws, or never returns.\<close>

datatype 'a outcome = Returns 'a | Throws error | Diverges

fun and_then :: "'a outcome \<Rightarrow> ('a \<Rightarrow> 'b outcome) \<Rightarrow> 'b outcome" where
  "and_then (Returns x) f = f x"
| "and_then (Throws e) f = Throws e"
| "and_then Diverges f = Diverges"

type_synonym Float32Array = "number list"

text \<open>
  \<^verbatim>\<open>new Float32Array(n)\<close> for a number \<open>n\<close>: the length is \<^verbatim>\<open>ToIndex(n)\<close>, which maps
  \<^verbatim>\<open>NaN\<close> to 0, truncates towards zero, and throws a \<^verbatim>\<open>RangeError\<close> for a negative or
  infinite result; the elements start at 0. The upper limit on the length is a resource
  limit of the engine and is not modelled.
\<close>

definition trunc :: "real \<Rightarrow> int" where
  "trunc x = (if 0 \<le> x then \<lfloor>x\<rfloor> else \<lceil>x\<rceil>)"

fun ToIndex :: "number \<Rightarrow> nat outcome" where
  "ToIndex NaN = Returns 0"
| "ToIndex (Num x) = (if trunc x < 0 then Throws RangeError else Returns (nat (trunc x)))"
| "ToIndex v = Throws RangeError"

definition zeros :: "nat \<Rightarrow> Float32Array" where
  "zeros n = replicate n (Num 0)"

definition new_Float32Array :: "number \<Rightarrow> Float32Array outcome" where
  "new_Float32Array n = and_then (ToIndex n) (\<lambda>k. Returns (zeros k))"

text \<open>
  \<^verbatim>\<open>a[i] = v\<close> on a typed array narrows \<open>v\<close> to binary32 and is ignored when \<open>i\<close> is
  out of range. \<^verbatim>\<open>a[i]\<close> out of range is \<^verbatim>\<open>undefined\<close>, which every arithmetic
  operation and every typed-array store of this program converts to \<^verbatim>\<open>NaN\<close>.
\<close>

definition ta_set :: "Float32Array \<Rightarrow> nat \<Rightarrow> number \<Rightarrow> Float32Array" where
  "ta_set a i v = (if i < length a then a[i := fround v] else a)"

definition ta_get :: "number list \<Rightarrow> nat \<Rightarrow> number" where
  "ta_get a i = (if i < length a then a ! i else NaN)"

text \<open>
  The loop \<^verbatim>\<open>for (let i = i0; i < b; i++) s = body(i, s)\<close> with a finite bound \<open>b\<close>,
  which need not be an integer.
\<close>

function for_upto :: "nat \<Rightarrow> real \<Rightarrow> (nat \<Rightarrow> 's \<Rightarrow> 's) \<Rightarrow> 's \<Rightarrow> 's" where
  "for_upto i b body s = (if real i < b then for_upto (Suc i) b body (body i s) else s)"
  by pat_completeness auto
termination
  by (relation "measure (\<lambda>(i, b, body, s). nat \<lceil>b\<rceil> - i)") (auto, linarith)

declare for_upto.simps [simp del]

text \<open>The same loop with a bound that is any number: it never exits when the bound is
  \<^verbatim>\<open>Infinity\<close> and does not run when the bound is \<^verbatim>\<open>NaN\<close> or \<^verbatim>\<open>-Infinity\<close>.\<close>

fun for_loop :: "number \<Rightarrow> (nat \<Rightarrow> 's \<Rightarrow> 's) \<Rightarrow> 's \<Rightarrow> 's outcome" where
  "for_loop (Num b) body s = Returns (for_upto 0 b body s)"
| "for_loop PosInf body s = Diverges"
| "for_loop v body s = Returns s"

section \<open>Data model (types/rf.ts)\<close>

record TimeSignal =
  samples :: Float32Array
  sampleRate :: number
  timestamp :: number
  duration :: number

record SpectrumData =
  frequencies :: Float32Array
  magnitudes :: Float32Array
  timestamp :: number
  binWidth :: number

record DSPConfig =
  fftSize :: number
  windowType :: string
  averagingCount :: number

section \<open>Window functions (windowing.ts)\<close>

definition rectangular :: "number \<Rightarrow> Float32Array outcome" where
  "rectangular len =
     and_then (new_Float32Array len) (\<lambda>window.
       for_loop len (\<lambda>i window. ta_set window i (Num 1)) window)"

definition hanning :: "number \<Rightarrow> Float32Array outcome" where
  "hanning len =
     and_then (new_Float32Array len) (\<lambda>window.
       for_loop len
         (\<lambda>i window. ta_set window i
            (num_mul (Num 0.5)
               (num_sub (Num 1)
                  (Math_cos (num_div (num_mul (num_mul (Num 2) Math_PI) (Num (real i)))
                                     (num_sub len (Num 1)))))))
         window)"

definition hamming :: "number \<Rightarrow> Float32Array outcome" where
  "hamming len =
     and_then (new_Float32Array len) (\<lambda>window.
       for_loop len
         (\<lambda>i window. ta_set window i
            (num_sub (Num 0.54)
               (num_mul (Num 0.46)
                  (Math_cos (num_div (num_mul (num_mul (Num 2) Math_PI) (Num (real i)))
                                     (num_sub len (Num 1)))))))
         window)"

text \<open>
  The \<^verbatim>\<open>switch\<close> of \<^verbatim>\<open>applyWindow\<close> compares the window type, a string at run time,
  with the three literals; its \<^verbatim>\<open>default\<close> branch throws
  \<^verbatim>\<open>new Error(`Unknown window type: ${windowType}`)\<close>.
\<close>

definition applyWindow :: "Float32Array \<Rightarrow> string \<Rightarrow> Float32Array outcome" where
  "applyWindow = (\<lambda>signal windowType.
     and_then
       (if windowType = ''rectangular'' then rectangular (Num (real (length signal)))
        else if windowType = ''hanning'' then hanning (Num (real (length signal)))
        else if windowType = ''hamming'' then hamming (Num (real (length signal)))
        else Throws (Error (''Unknown window type: '' @ windowType)))
       (\<lambda>window.
          Returns (for_upto 0 (real (length signal))
                     (\<lambda>i windowedSignal.
                        ta_set windowedSignal i (num_mul (ta_get signal i) (ta_get window i)))
                     (zeros (length signal)))))"

section \<open>The spectral transform engine (fft.ts)\<close>

record ComplexNumber =
  real_part :: number
  imag_part :: number

record FFTProcessor =
  config :: DSPConfig

text \<open>The constructor stores the configuration.\<close>

definition new_FFTProcessor :: "DSPConfig \<Rightarrow> FFTProcessor outcome" where
  "new_FFTProcessor cfg = Returns \<lparr>config = cfg\<rparr>"

definition extractChunk :: "Float32Array \<Rightarrow> number \<Rightarrow> Float32Array outcome" where
  "extractChunk = (\<lambda>samples chunkSize.
     and_then (new_Float32Array chunkSize) (\<lambda>chunk.
       for_loop chunkSize
         (\<lambda>i chunk. ta_set chunk i (if i < length samples then ta_get samples i else Num 0))
         chunk))"

text \<open>The angle \<^verbatim>\<open>-2 * Math.PI * k * n / N\<close> of the inner loop of \<^verbatim>\<open>computeFFT\<close>.\<close>

definition angle :: "nat \<Rightarrow> nat \<Rightarrow> nat \<Rightarrow> number" where
  "angle k n N =
     num_div (num_mul (num_mul (num_mul (Num (- 2)) Math_PI) (Num (real k))) (Num (real n)))
             (Num (real N))"

definition computeFFT :: "Float32Array \<Rightarrow> ComplexNumber list" where
  "computeFFT = (\<lambda>samples.
     (let N = length samples in
      for_upto 0 (real N / 2)
        (\<lambda>k result.
           let (realSum, imagSum) =
                 for_upto 0 (real N)
                   (\<lambda>n (realSum, imagSum).
                      (num_add realSum (num_mul (ta_get samples n) (Math_cos (angle k n N))),
                       num_add imagSum (num_mul (ta_get samples n) (Math_sin (angle k n N)))))
                   (Num 0, Num 0)
           in result @ [\<lparr>real_part = realSum, imag_part = imagSum\<rparr>])
        []))"

definition computeMagnitudes :: "ComplexNumber list \<Rightarrow> Float32Array" where
  "computeMagnitudes complexData =
     for_upto 0 (real (length complexData))
       (\<lambda>i magnitudes.
          let re = real_part (complexData ! i); im = imag_part (complexData ! i)
          in ta_set magnitudes i (Math_sqrt (num_add (num_mul re re) (num_mul im im))))
       (zeros (length complexData))"

definition createFrequencyAxis :: "FFTProcessor \<Rightarrow> number \<Rightarrow> Float32Array outcome" where
  "createFrequencyAxis = (\<lambda>this sampleRate.
     (let numBins = num_div (fftSize (config this)) (Num 2) in
      and_then (new_Float32Array numBins) (\<lambda>frequencies.
        for_loop numBins
          (\<lambda>i frequencies. ta_set frequencies i
             (num_div (num_mul (Num (real i)) sampleRate) (fftSize (config this))))
          frequencies)))"

definition convertToDecibels :: "Float32Array \<Rightarrow> Float32Array" where
  "convertToDecibels = (\<lambda>magnitudes.
     for_upto 0 (real (length magnitudes))
       (\<lambda>i dB.
          let mag = Math_max (ta_get magnitudes i) (Num (1 / 10 ^ 10))
          in ta_set dB i (num_mul (Num 20) (Math_log10 mag)))
       (zeros (length magnitudes)))"

text \<open>\<^verbatim>\<open>processSignal\<close>; the value of \<^verbatim>\<open>Date.now()\<close> is the parameter \<open>now\<close>.\<close>

definition processSignal :: "FFTProcessor \<Rightarrow> number \<Rightarrow> TimeSignal \<Rightarrow> SpectrumData outcome" where
  "processSignal this now signal =
     and_then (extractChunk (samples signal) (fftSize (config this))) (\<lambda>chunk.
     and_then (applyWindow chunk (windowType (config this))) (\<lambda>windowedChunk.
       let fftResult = computeFFT windowedChunk;
           magnitudes = computeMagnitudes fftResult
       in and_then (createFrequencyAxis this (sampleRate signal)) (\<lambda>frequencies.
            let magnitudesDB = convertToDecibels magnitudes
            in Returns \<lparr>frequencies = frequencies,
                        magnitudes = magnitudesDB,
                        timestamp = now,
                        binWidth = num_div (sampleRate signal) (fftSize (config this))\<rparr>)))"

section \<open>The signal generator (signal-generator.ts)\<close>

text \<open>
  The calls of \<^verbatim>\<open>console.log\<close> are left out. Every generator takes the value of
  \<^verbatim>\<open>Date.now()\<close> as the parameter \<open>now\<close>; the defaults of omitted arguments are
  supplied by the caller.
\<close>

definition createSineWave ::
  "number \<Rightarrow> number \<Rightarrow> number \<Rightarrow> number \<Rightarrow> number \<Rightarrow> TimeSignal outcome" where
  "createSineWave = (\<lambda>frequency amplitude duration sampleRate now.
     (let numSamples = Math_floor (binary64_mul duration sampleRate) in
      and_then (new_Float32Array numSamples) (\<lambda>samples.
      and_then
        (for_loop numSamples
           (\<lambda>i samples.
              let time = num_div (Num (real i)) sampleRate
              in ta_set samples i
                   (num_mul amplitude
                      (Math_sin (num_mul (num_mul (num_mul (Num 2) Math_PI) frequency) time))))
           samples)
        (\<lambda>samples. Returns \<lparr>samples = samples, sampleRate = sampleRate,
                              timestamp = now, duration = duration\<rparr>))))"

text \<open>\<^verbatim>\<open>amplitudes[freqIndex] || 1\<close>: the element when it exists and is truthy, else 1.\<close>

definition amplitude_or_1 :: "number list \<Rightarrow> nat \<Rightarrow> number" where
  "amplitude_or_1 amplitudes freqIndex =
     (if freqIndex < length amplitudes \<and> truthy (amplitudes ! freqIndex)
      then amplitudes ! freqIndex else Num 1)"

definition createMultiTone ::
  "number list \<Rightarrow> number list \<Rightarrow> number \<Rightarrow> number \<Rightarrow> number \<Rightarrow> TimeSignal outcome" where
  "createMultiTone = (\<lambda>frequencies amplitudes duration sampleRate now.
     (let numSamples = Math_floor (binary64_mul duration sampleRate) in
      and_then (new_Float32Array numSamples) (\<lambda>samples.
      and_then
        (for_upto 0 (real (length frequencies))
           (\<lambda>freqIndex state.
              and_then state (\<lambda>samples.
                let freq = ta_get frequencies freqIndex;
                    amp = amplitude_or_1 amplitudes freqIndex
                in for_loop numSamples
                     (\<lambda>i samples.
                        let time = num_div (Num (real i)) sampleRate
                        in ta_set samples i
                             (num_add (ta_get samples i)
                                (num_mul amp
                                   (Math_sin (num_mul (num_mul (num_mul (Num 2) Math_PI) freq)
                                                      time)))))
                     samples))
           (Returns samples))
        (\<lambda>samples. Returns \<lparr>samples = samples, sampleRate = sampleRate,
                              timestamp = now, duration = duration\<rparr>))))"

text \<open>
  \<^verbatim>\<open>createWhiteNoise\<close>: the call of \<^verbatim>\<open>Math.random()\<close> in iteration \<open>i\<close> returns
  \<open>random i\<close>, a real number in \<open>[0, 1)\<close>.
\<close>

definition createWhiteNoise ::
  "(nat \<Rightarrow> real) \<Rightarrow> number \<Rightarrow> number \<Rightarrow> number \<Rightarrow> number \<Rightarrow> TimeSignal outcome" where
  "createWhiteNoise = (\<lambda>random amplitude duration sampleRate now.
     (let numSamples = Math_floor (binary64_mul duration sampleRate) in
      and_then (new_Float32Array numSamples) (\<lambda>samples.
      and_then
        (for_loop numSamples
           (\<lambda>i samples.
              ta_set samples i
                (num_mul amplitude (num_sub (num_mul (Num 2) (Num (random i))) (Num 1))))
           samples)
        (\<lambda>samples. Returns \<lparr>samples = samples, sampleRate = sampleRate,
                              timestamp = now, duration = duration\<rparr>))))"

text \<open>The instantaneous frequency of the chirp at \<open>time\<close>:
  \<^verbatim>\<open>startFreq + (endFreq - startFreq) * (time / duration)\<close>.\<close>

definition instantFreq :: "number \<Rightarrow> number \<Rightarrow> number \<Rightarrow> number \<Rightarrow> number" where
  "instantFreq = (\<lambda>startFreq endFreq duration time.
     num_add startFreq (num_mul (num_sub endFreq startFreq) (num_div time duration)))"

definition createChirp ::
  "number \<Rightarrow> number \<Rightarrow> number \<Rightarrow> number \<Rightarrow> number \<Rightarrow> TimeSignal outcome" where
  "createChirp = (\<lambda>startFreq endFreq duration sampleRate now.
     (let numSamples = Math_floor (binary64_mul duration sampleRate) in
      and_then (new_Float32Array numSamples) (\<lambda>samples.
      and_then
        (for_loop numSamples
           (\<lambda>i samples.
              let time = num_div (Num (real i)) sampleRate;
                  instantFreq = instantFreq startFreq endFreq duration time
              in ta_set samples i
                   (Math_sin (num_mul (num_mul (num_mul (Num 2) Math_PI) instantFreq) time)))
           samples)
        (\<lambda>samples. Returns \<lparr>samples = samples, sampleRate = sampleRate,
                              timestamp = now, duration = duration\<rparr>))))"

section \<open>Allocation followed by a filling loop\<close>

text \<open>
  Most operations allocate a typed array of \<open>n\<close> elements and then store \<open>f i\<close> at
  every index \<open>i < n\<close>. The lemma \<open>alloc_fill\<close> below shows that this pattern computes
  \<open>alloc_filled n f\<close>.
\<close>

definition alloc_filled :: "number \<Rightarrow> (nat \<Rightarrow> number) \<Rightarrow> Float32Array outcome" where
  "alloc_filled n f =
     (case n of
        Num x \<Rightarrow> if x \<le> - 1 then Throws RangeError
                 else Returns (map (\<lambda>i. fround (f i)) [0..<nat \<lfloor>x\<rfloor>])
      | NaN \<Rightarrow> Returns []
      | _ \<Rightarrow> Throws RangeError)"

section \<open>The window that applyWindow selects\<close>

text \<open>
  The coefficients that the \<^verbatim>\<open>switch\<close> of \<^verbatim>\<open>applyWindow\<close> obtains for a recognised
  window type and a chunk of \<open>N\<close> samples; the lemma \<open>applyWindow_known\<close> below shows it.
\<close>

definition window_of :: "string \<Rightarrow> nat \<Rightarrow> Float32Array" where
  "window_of wt N =
     (if wt = ''rectangular'' then replicate N (Num 1)
      else if wt = ''hanning'' then
        map (\<lambda>i. fround (num_mul (Num 0.5)
               (num_sub (Num 1)
                  (Math_cos (num_div (num_mul (num_mul (Num 2) Math_PI) (Num (real i)))
                                     (num_sub (Num (real N)) (Num 1))))))) [0..<N]
      else
        map (\<lambda>i. fround (num_sub (Num 0.54)
               (num_mul (Num 0.46)
                  (Math_cos (num_div (num_mul (num_mul (Num 2) Math_PI) (Num (real i)))
                                     (num_sub (Num (real N)) (Num 1))))))) [0..<N])"

section \<open>The transform as the specification states it\<close>

text \<open>
  The discrete Fourier transform of a chunk \<open>x\<close> of \<open>N\<close> real samples, as the specification
  writes it: \<open>real[k] = \<Sum>\<^sub>n x[n] cos(-2\<pi>kn/N)\<close>, \<open>imag[k] = \<Sum>\<^sub>n x[n] sin(-2\<pi>kn/N)\<close>,
  \<open>magnitude[k] = sqrt(real[k]\<^sup>2 + imag[k]\<^sup>2)\<close> and
  \<open>dB[k] = 20 log10(max(magnitude[k], 1e-10))\<close>.
\<close>

definition dft_real :: "real list \<Rightarrow> nat \<Rightarrow> real" where
  "dft_real x k = (\<Sum>n<length x. x ! n * cos (- 2 * pi * real k * real n / real (length x)))"

definition dft_imag :: "real list \<Rightarrow> nat \<Rightarrow> real" where
  "dft_imag x k = (\<Sum>n<length x. x ! n * sin (- 2 * pi * real k * real n / real (length x)))"

definition dft_magnitude :: "real list \<Rightarrow> nat \<Rightarrow> real" where
  "dft_magnitude x k = sqrt ((dft_real x k)\<^sup>2 + (dft_imag x k)\<^sup>2)"

definition dft_dB :: "real list \<Rightarrow> nat \<Rightarrow> real" where
  "dft_dB x k = 20 * log 10 (max (dft_magnitude x k) (1 / 10 ^ 10))"

section \<open>The windowed chunk of a finite signal\<close>

text \<open>
  The window coefficients as real numbers, and the chunk of \<open>F\<close> samples after extraction
  (with zero padding) and windowing, for a signal whose samples are the real numbers
  \<open>cs\<close>. The lemmas \<open>window_of_finite\<close> and \<open>processSignal_finite\<close> below relate them to
  the code.
\<close>

definition window_coeff :: "string \<Rightarrow> nat \<Rightarrow> nat \<Rightarrow> real" where
  "window_coeff wt N i =
     (if wt = ''rectangular'' then 1
      else if wt = ''hanning'' then 0.5 * (1 - cos (2 * pi * real i / (real N - 1)))
      else 0.54 - 0.46 * cos (2 * pi * real i / (real N - 1)))"

definition windowed_chunk :: "string \<Rightarrow> nat \<Rightarrow> real list \<Rightarrow> real list" where
  "windowed_chunk wt F cs =
     map (\<lambda>i. (take F cs @ replicate (F - length cs) 0) ! i * window_coeff wt F i) [0..<F]"

section \<open>The multi-tone signal as the specification states it\<close>

text \<open>
  The sample of the multi-tone signal at time \<open>t\<close>, as the specification writes it: the
  sum over the components of \<open>amplitude[j] * sin(2\<pi> \<cdot> frequency[j] \<cdot> t)\<close>, where a missing
  amplitude (fewer amplitudes than frequencies) is 1.
\<close>

definition multiTone_spec :: "real list \<Rightarrow> real list \<Rightarrow> real \<Rightarrow> real" where
  "multiTone_spec fs as t =
     (\<Sum>j<length fs. (if j < length as then as ! j else 1) * sin (2 * pi * fs ! j * t))"

section \<open>Counting loops as folds\<close>

lemma for_upto_fold: "for_upto i b body s = fold body [i..<nat \<lceil>b\<rceil>] s"
proof (induction i b body s rule: for_upto.induct)
  case (1 i b body s)
  show ?case
  proof (cases "real i < b")
    case True
    then have "i < nat \<lceil>b\<rceil>" by linarith
    then have "[i..<nat \<lceil>b\<rceil>] = i # [Suc i..<nat \<lceil>b\<rceil>]" by (simp add: upt_conv_Cons)
    with True 1 show ?thesis by (simp add: for_upto.simps [of i])
  next
    case False
    then have "nat \<lceil>b\<rceil> \<le> i" by linarith
    with False show ?thesis by (simp add: for_upto.simps [of i])
  qed
qed

lemma ta_set_length [simp]: "length (ta_set a i v) = length a"
  by (simp add: ta_set_def)

lemma fold_ta_set_length:
  "length (fold (\<lambda>i a. ta_set a i (g i (ta_get a i))) [0..<n] a) = length a"
  by (induction n) simp_all

lemma fold_ta_set_nth:
  "j < length a \<Longrightarrow>
   fold (\<lambda>i a. ta_set a i (g i (ta_get a i))) [0..<n] a ! j =
     (if j < n then fround (g j (a ! j)) else a ! j)"
proof (induction n)
  case 0
  then show ?case by simp
next
  case (Suc n)
  let ?r = "fold (\<lambda>i a. ta_set a i (g i (ta_get a i))) [0..<n] a"
  have len: "length ?r = length a" by (rule fold_ta_set_length)
  show ?case
  proof (cases "j = n")
    case True
    with Suc len show ?thesis by (simp add: ta_set_def ta_get_def)
  next
    case False
    with Suc len show ?thesis by (auto simp: ta_set_def ta_get_def)
  qed
qed

lemma fold_fill:
  assumes "length a \<le> n"
  shows "fold (\<lambda>i a. ta_set a i (f i)) [0..<n] a = map (\<lambda>i. fround (f i)) [0..<length a]"
proof (rule nth_equalityI)
  show "length (fold (\<lambda>i a. ta_set a i (f i)) [0..<n] a) = length (map (\<lambda>i. fround (f i)) [0..<length a])"
    using fold_ta_set_length [of "\<lambda>i v. f i" n a] by simp
next
  fix j assume "j < length (fold (\<lambda>i a. ta_set a i (f i)) [0..<n] a)"
  then have j: "j < length a" using fold_ta_set_length [of "\<lambda>i v. f i" n a] by simp
  with assms show "fold (\<lambda>i a. ta_set a i (f i)) [0..<n] a ! j = map (\<lambda>i. fround (f i)) [0..<length a] ! j"
    using fold_ta_set_nth [of j a "\<lambda>i v. f i" n] by simp
qed

lemma trunc_neg_iff: "trunc x < 0 \<longleftrightarrow> x \<le> - 1"
proof (cases "0 \<le> x")
  case True
  then show ?thesis by (simp add: trunc_def)
next
  case False
  have "\<lceil>x\<rceil> < 0 \<longleftrightarrow> \<lceil>x\<rceil> \<le> - 1" by linarith
  also have "\<dots> \<longleftrightarrow> x \<le> - 1" by (simp add: ceiling_le_iff)
  finally show ?thesis using False by (simp add: trunc_def)
qed

lemma nat_trunc: "nat (trunc x) = nat \<lfloor>x\<rfloor>"
proof (cases "0 \<le> x")
  case True
  then show ?thesis by (simp add: trunc_def)
next
  case False
  then have "\<lceil>x\<rceil> \<le> 0" "\<lfloor>x\<rfloor> \<le> 0" by linarith+
  with False show ?thesis by (simp add: trunc_def)
qed

lemma alloc_fill:
  "and_then (new_Float32Array n) (\<lambda>a. for_loop n (\<lambda>i a. ta_set a i (f i)) a) = alloc_filled n f"
proof (cases n)
  case (Num x)
  show ?thesis
  proof (cases "x \<le> - 1")
    case True
    then have "trunc x < 0" by (simp add: trunc_neg_iff)
    with Num True show ?thesis by (simp add: new_Float32Array_def alloc_filled_def)
  next
    case False
    then have t: "\<not> trunc x < 0" "nat (trunc x) = nat \<lfloor>x\<rfloor>"
      by (simp_all add: trunc_neg_iff nat_trunc)
    have "nat \<lfloor>x\<rfloor> \<le> nat \<lceil>x\<rceil>" by linarith
    then have "fold (\<lambda>i a. ta_set a i (f i)) [0..<nat \<lceil>x\<rceil>] (zeros (nat \<lfloor>x\<rfloor>)) =
        map (\<lambda>i. fround (f i)) [0..<nat \<lfloor>x\<rfloor>]"
      using fold_fill [of "zeros (nat \<lfloor>x\<rfloor>)" "nat \<lceil>x\<rceil>" f] by (simp add: zeros_def)
    with Num False t show ?thesis
      by (simp add: new_Float32Array_def alloc_filled_def for_upto_fold)
  qed
qed (simp_all add: new_Float32Array_def alloc_filled_def zeros_def)

lemma and_then_assoc:
  "and_then (and_then m f) g = and_then m (\<lambda>x. and_then (f x) g)"
  by (cases m) simp_all

lemma alloc_fill_then:
  "and_then (new_Float32Array n) (\<lambda>a. and_then (for_loop n (\<lambda>i a. ta_set a i (f i)) a) k) =
   and_then (alloc_filled n f) k"
  unfolding alloc_fill [symmetric] and_then_assoc ..

lemma alloc_filled_nat [simp]:
  "alloc_filled (Num (real N)) f = Returns (map (\<lambda>i. fround (f i)) [0..<N])"
  by (simp add: alloc_filled_def)

subsection \<open>Narrowing\<close>

declare fround.simps(1) [simp del]

lemma fround_in_range: "\<bar>x\<bar> < f32_threshold \<Longrightarrow> fround (Num x) = Num x"
  by (simp add: fround.simps(1))

lemma fround_overflow: "f32_threshold \<le> x \<Longrightarrow> fround (Num x) = PosInf"
proof -
  assume a: "f32_threshold \<le> x"
  have "0 < f32_threshold" by (simp add: f32_threshold_def)
  with a have "0 < x" "f32_threshold \<le> \<bar>x\<bar>" by linarith+
  then show ?thesis by (simp add: fround.simps(1))
qed

lemma fround_zero [simp]: "fround (Num 0) = Num 0"
  by (rule fround_in_range) (simp add: f32_threshold_def)

lemma fround_one [simp]: "fround (Num 1) = Num 1"
  by (rule fround_in_range) (simp add: f32_threshold_def)

lemma fround_unit: "\<bar>x\<bar> \<le> 1 \<Longrightarrow> fround (Num x) = Num x"
proof (rule fround_in_range)
  assume "\<bar>x\<bar> \<le> 1"
  moreover have "1 < f32_threshold" by (simp add: f32_threshold_def)
  ultimately show "\<bar>x\<bar> < f32_threshold" by linarith
qed

subsection \<open>Closed forms of the operations\<close>

lemma extractChunk_map:
  fixes samples :: Float32Array
  shows "extractChunk samples (Num (real F)) =
     Returns (map (\<lambda>i. fround (if i < length samples then ta_get samples i else Num 0)) [0..<F])"
  by (simp only: extractChunk_def alloc_fill alloc_filled_nat)

lemma rectangular_nat: "rectangular (Num (real N)) = Returns (replicate N (Num 1))"
  by (simp only: rectangular_def alloc_fill alloc_filled_nat) (simp add: map_replicate_const)

lemma for_upto_nat_fill:
  "for_upto 0 (real N) (\<lambda>i a. ta_set a i (f i)) (zeros N) = map (\<lambda>i. fround (f i)) [0..<N]"
  using fold_fill [of "zeros N" N f] by (simp add: for_upto_fold zeros_def)

lemma fold_snoc: "fold (\<lambda>k result. result @ [g k]) ks r = r @ map g ks"
  by (induction ks arbitrary: r) simp_all

lemma fold_sums:
  "fold (\<lambda>n (realSum, imagSum). (num_add realSum (a n), num_add imagSum (b n))) ns (p, q) =
     (fold (\<lambda>n s. num_add s (a n)) ns p, fold (\<lambda>n s. num_add s (b n)) ns q)"
  by (induction ns arbitrary: p q) simp_all

lemma fold_num_add_finite:
  "fold (\<lambda>n s. num_add s (Num (f n))) ns (Num p) = Num (p + sum_list (map f ns))"
  by (induction ns arbitrary: p) (simp_all add: add.assoc)

lemma computeFFT_map:
  fixes samples :: Float32Array
  shows "computeFFT samples =
     map (\<lambda>k. \<lparr>real_part = fold (\<lambda>n s. num_add s (num_mul (ta_get samples n) (Math_cos (angle k n (length samples))))) [0..<length samples] (Num 0),
               imag_part = fold (\<lambda>n s. num_add s (num_mul (ta_get samples n) (Math_sin (angle k n (length samples))))) [0..<length samples] (Num 0)\<rparr>)
         [0..<nat \<lceil>real (length samples) / 2\<rceil>]"
  by (simp add: computeFFT_def Let_def for_upto_fold fold_sums fold_snoc)

lemma ceiling_half: "nat \<lceil>real N / 2\<rceil> = (N + 1) div 2"
  by linarith

lemma length_computeFFT:
  fixes samples :: Float32Array
  shows "length (computeFFT samples) = (length samples + 1) div 2"
  by (simp add: computeFFT_map ceiling_half)

lemma computeMagnitudes_map:
  "computeMagnitudes complexData =
     map (\<lambda>i. fround (Math_sqrt (num_add (num_mul (real_part (complexData ! i)) (real_part (complexData ! i)))
                                        (num_mul (imag_part (complexData ! i)) (imag_part (complexData ! i))))))
         [0..<length complexData]"
  by (simp add: computeMagnitudes_def Let_def for_upto_nat_fill)

lemma convertToDecibels_map:
  fixes magnitudes :: Float32Array
  shows "convertToDecibels magnitudes =
     map (\<lambda>i. fround (num_mul (Num 20) (Math_log10 (Math_max (ta_get magnitudes i) (Num (1 / 10 ^ 10))))))
         [0..<length magnitudes]"
  by (simp add: convertToDecibels_def Let_def for_upto_nat_fill)

lemma createFrequencyAxis_alloc:
  fixes sampleRate :: number
  shows "createFrequencyAxis this sampleRate =
     alloc_filled (num_div (fftSize (config this)) (Num 2))
       (\<lambda>i. num_div (num_mul (Num (real i)) sampleRate) (fftSize (config this)))"
  by (simp only: createFrequencyAxis_def Let_def alloc_fill)

lemma hanning_nat:
  "hanning (Num (real N)) =
     Returns (map (\<lambda>i. fround (num_mul (Num 0.5)
               (num_sub (Num 1)
                  (Math_cos (num_div (num_mul (num_mul (Num 2) Math_PI) (Num (real i)))
                                     (num_sub (Num (real N)) (Num 1))))))) [0..<N])"
  by (simp only: hanning_def alloc_fill alloc_filled_nat)

lemma hamming_nat:
  "hamming (Num (real N)) =
     Returns (map (\<lambda>i. fround (num_sub (Num 0.54)
               (num_mul (Num 0.46)
                  (Math_cos (num_div (num_mul (num_mul (Num 2) Math_PI) (Num (real i)))
                                     (num_sub (Num (real N)) (Num 1))))))) [0..<N])"
  by (simp only: hamming_def alloc_fill alloc_filled_nat)

lemma hanning_bound: "\<bar>c\<bar> \<le> 1 \<Longrightarrow> \<bar>0.5 * (1 - c)\<bar> \<le> (1::real)"
  by (simp add: abs_le_iff)

lemma hamming_bound: "\<bar>c\<bar> \<le> 1 \<Longrightarrow> \<bar>0.54 - 0.46 * c\<bar> \<le> (1::real)"
  by (simp add: abs_le_iff)

lemma hanning_coeff:
  assumes "N \<noteq> 1"
  shows "fround (num_mul (Num 0.5)
               (num_sub (Num 1)
                  (Math_cos (num_div (num_mul (num_mul (Num 2) Math_PI) (Num (real i)))
                                     (num_sub (Num (real N)) (Num 1)))))) =
         Num (0.5 * (1 - cos (2 * pi * real i / (real N - 1))))"
proof -
  have c: "\<bar>cos (2 * pi * real i / (real N - 1))\<bar> \<le> 1" by (rule abs_cos_le_one)
  then have "\<bar>0.5 * (1 - cos (2 * pi * real i / (real N - 1)))\<bar> \<le> 1" by (rule hanning_bound)
  then have "fround (Num (0.5 * (1 - cos (2 * pi * real i / (real N - 1))))) =
             Num (0.5 * (1 - cos (2 * pi * real i / (real N - 1))))"
    by (rule fround_unit)
  with assms show ?thesis by (simp add: num_sub_def Math_PI_def)
qed

lemma hamming_coeff:
  assumes "N \<noteq> 1"
  shows "fround (num_sub (Num 0.54)
               (num_mul (Num 0.46)
                  (Math_cos (num_div (num_mul (num_mul (Num 2) Math_PI) (Num (real i)))
                                     (num_sub (Num (real N)) (Num 1)))))) =
         Num (0.54 - 0.46 * cos (2 * pi * real i / (real N - 1)))"
proof -
  have c: "\<bar>cos (2 * pi * real i / (real N - 1))\<bar> \<le> 1" by (rule abs_cos_le_one)
  then have "\<bar>0.54 - 0.46 * cos (2 * pi * real i / (real N - 1))\<bar> \<le> 1" by (rule hamming_bound)
  then have "fround (Num (0.54 - 0.46 * cos (2 * pi * real i / (real N - 1)))) =
             Num (0.54 - 0.46 * cos (2 * pi * real i / (real N - 1)))"
    by (rule fround_unit)
  with assms show ?thesis by (simp add: num_sub_def Math_PI_def)
qed

lemma createSineWave_alloc:
  fixes duration sampleRate :: number
  shows "createSineWave frequency amplitude duration sampleRate now =
     and_then
       (alloc_filled (Math_floor (binary64_mul duration sampleRate))
          (\<lambda>i. num_mul amplitude
                 (Math_sin (num_mul (num_mul (num_mul (Num 2) Math_PI) frequency)
                                    (num_div (Num (real i)) sampleRate)))))
       (\<lambda>samples. Returns \<lparr>samples = samples, sampleRate = sampleRate,
                             timestamp = now, duration = duration\<rparr>)"
  by (simp only: createSineWave_def Let_def alloc_fill_then)

lemma createWhiteNoise_alloc:
  fixes duration sampleRate :: number
  shows "createWhiteNoise random amplitude duration sampleRate now =
     and_then
       (alloc_filled (Math_floor (binary64_mul duration sampleRate))
          (\<lambda>i. num_mul amplitude (num_sub (num_mul (Num 2) (Num (random i))) (Num 1))))
       (\<lambda>samples. Returns \<lparr>samples = samples, sampleRate = sampleRate,
                             timestamp = now, duration = duration\<rparr>)"
  by (simp only: createWhiteNoise_def Let_def alloc_fill_then)

lemma createChirp_alloc:
  fixes duration sampleRate :: number
  shows "createChirp startFreq endFreq duration sampleRate now =
     and_then
       (alloc_filled (Math_floor (binary64_mul duration sampleRate))
          (\<lambda>i. Math_sin (num_mul (num_mul (num_mul (Num 2) Math_PI)
                          (instantFreq startFreq endFreq duration (num_div (Num (real i)) sampleRate)))
                          (num_div (Num (real i)) sampleRate))))
       (\<lambda>samples. Returns \<lparr>samples = samples, sampleRate = sampleRate,
                             timestamp = now, duration = duration\<rparr>)"
  by (simp only: createChirp_def Let_def alloc_fill_then)

lemma pow2_pos: "0 < pow2 e"
  by (simp add: pow2_def)

lemma round_half_even_nonneg: "0 \<le> q \<Longrightarrow> 0 \<le> round_half_even q"
  by (simp add: round_half_even_def Let_def)

lemma round64_nonneg:
  assumes "0 \<le> x" "round64 x = Num p"
  shows "0 \<le> p"
proof (cases "x = 0")
  case True
  with assms show ?thesis by (simp add: round64_def)
next
  case False
  let ?y = "of_int (round_half_even (x / ulp64 x)) * ulp64 x"
  have u: "0 < ulp64 x" by (simp add: ulp64_def pow2_pos)
  with assms(1) have "0 \<le> x / ulp64 x" by simp
  then have "0 \<le> round_half_even (x / ulp64 x)" by (rule round_half_even_nonneg)
  with u have y: "0 \<le> ?y" by simp
  from False assms(2) have "p = ?y" by (simp add: round64_def Let_def split: if_splits)
  with y show ?thesis by simp
qed

lemma log2_pow: "log 2 ((2::real) ^ n) = real n"
  by (simp add: log_nat_power)

lemma ulp64_binade:
  assumes "2 ^ n \<le> \<bar>x\<bar>" "\<bar>x\<bar> < 2 ^ Suc n"
  shows "ulp64 x = pow2 (int n - 52)"
proof -
  have pos: "0 < \<bar>x\<bar>" using assms(1) by (rule less_le_trans [rotated]) simp
  have "real n \<le> log 2 \<bar>x\<bar>" using assms(1) by (intro le_log_of_power) simp_all
  moreover have "log 2 \<bar>x\<bar> < log 2 (2 ^ Suc n)"
    using assms(2) pos by (subst log_less_cancel_iff) simp_all
  then have "log 2 \<bar>x\<bar> < real (Suc n)" by (simp only: log2_pow)
  ultimately have "\<lfloor>log 2 \<bar>x\<bar>\<rfloor> = int n" by linarith
  then show ?thesis by (simp add: ulp64_def)
qed


lemma round64_0: "round64 0 = Num 0"
  by (simp add: round64_def)

lemma pow2_small: "n \<le> 52 \<Longrightarrow> pow2 (int n - 52) = 1 / 2 ^ (52 - n)"
proof (cases "n = 52")
  case True
  then show ?thesis by (simp add: pow2_def)
next
  case False
  assume "n \<le> 52"
  with False have "\<not> 0 \<le> int n - 52" "nat (- (int n - 52)) = 52 - n" by linarith+
  then show ?thesis by (simp only: pow2_def if_False)
qed

lemma round64_eval:
  assumes lo: "2 ^ n \<le> \<bar>x\<bar>" and hi: "\<bar>x\<bar> < 2 ^ Suc n" and n: "n \<le> 52"
    and m: "round_half_even (x * 2 ^ (52 - n)) = m"
    and fin: "\<bar>real_of_int m / 2 ^ (52 - n)\<bar> < 2 ^ 1024"
  shows "round64 x = Num (real_of_int m / 2 ^ (52 - n))"
proof -
  have u: "ulp64 x = 1 / 2 ^ (52 - n)"
    using ulp64_binade [OF lo hi] pow2_small [OF n] by (simp only:)
  have "0 < \<bar>x\<bar>" using lo by (rule less_le_trans [rotated]) simp
  then have x: "x \<noteq> 0" by auto
  have q: "x / ulp64 x = x * 2 ^ (52 - n)" by (simp add: u)
  have y: "real_of_int (round_half_even (x / ulp64 x)) * ulp64 x = real_of_int m / 2 ^ (52 - n)"
    by (simp only: q m) (simp add: u)
  from fin have "\<not> 2 ^ 1024 \<le> \<bar>real_of_int m / 2 ^ (52 - n)\<bar>" by (simp only: not_le)
  with x show ?thesis by (simp only: round64_def Let_def y if_False)
qed

lemma round64_2: "round64 2 = Num 2"
proof -
  have "round64 2 = Num (real_of_int (2 ^ 52) / 2 ^ (52 - 1))"
    by (rule round64_eval) (simp_all add: round_half_even_def)
  then show ?thesis by simp
qed

lemma round64_4: "round64 4 = Num 4"
proof -
  have "round64 4 = Num (real_of_int (2 ^ 52) / 2 ^ (52 - 2))"
    by (rule round64_eval) (simp_all add: round_half_even_def)
  then show ?thesis by simp
qed

lemma round64_07_times_10:
  "round64 (3152519739159347 / 2 ^ 52 * 10) = Num 7 \<and>
   \<lfloor>3152519739159347 / 2 ^ 52 * (10::real)\<rfloor> = 6"
proof -
  have "round64 (3152519739159347 / 2 ^ 52 * 10) = Num (real_of_int (7 * 2 ^ 50) / 2 ^ (52 - 2))"
    by (rule round64_eval) (simp_all add: round_half_even_def)
  then have "round64 (3152519739159347 / 2 ^ 52 * 10) = Num 7" by simp
  moreover have "\<lfloor>3152519739159347 / 2 ^ 52 * (10::real)\<rfloor> = 6" by simp
  ultimately show ?thesis by (simp only: simp_thms)
qed

lemma binary64_mul_nonneg:
  assumes "0 \<le> d" "0 \<le> r" "binary64_mul (Num d) (Num r) = Num p"
  shows "0 \<le> p"
proof -
  have "0 \<le> d * r" using assms(1,2) by simp
  moreover have "round64 (d * r) = Num p" using assms(3) by simp
  ultimately show ?thesis by (rule round64_nonneg)
qed

lemma numSamples_finite:
  assumes "0 \<le> d" "0 \<le> r" and prod: "binary64_mul (Num d) (Num r) = Num p"
  shows "alloc_filled (Math_floor (binary64_mul (Num d) (Num r))) f =
           Returns (map (\<lambda>i. fround (f i)) [0..<nat \<lfloor>p\<rfloor>])"
proof -
  have "0 \<le> p" using assms by (rule binary64_mul_nonneg)
  then have "\<not> real_of_int \<lfloor>p\<rfloor> \<le> - 1" by linarith
  then show ?thesis by (simp add: alloc_filled_def prod del: binary64_mul.simps)
qed

lemma for_loop_Num: "for_loop (Num b) body = (\<lambda>s. Returns (for_upto 0 b body s))"
  by (rule ext) simp

lemma fold_and_then_Returns:
  "fold (\<lambda>x state. and_then state (\<lambda>s. Returns (h x s))) xs (Returns s0) = Returns (fold h xs s0)"
  by (induction xs arbitrary: s0) simp_all

lemma fold_accumulate_nth:
  assumes "j < length a" "length a \<le> n"
  shows "fold (\<lambda>x a. fold (\<lambda>i a. ta_set a i (g x i (ta_get a i))) [0..<n] a) xs a ! j =
         fold (\<lambda>x v. fround (g x j v)) xs (a ! j)"
  using assms
proof (induction xs arbitrary: a)
  case Nil
  then show ?case by simp
next
  case (Cons x xs)
  let ?a' = "fold (\<lambda>i a. ta_set a i (g x i (ta_get a i))) [0..<n] a"
  have len: "length ?a' = length a" by (rule fold_ta_set_length)
  have nth: "?a' ! j = fround (g x j (a ! j))"
    using Cons.prems fold_ta_set_nth [of j a "g x" n] by simp
  from Cons.IH [of ?a'] Cons.prems len nth show ?case by simp
qed

lemma fold_accumulate_length:
  "length (fold (\<lambda>x a. fold (\<lambda>i a. ta_set a i (g x i (ta_get a i))) [0..<n] a) xs a) = length a"
  by (induction xs arbitrary: a) (simp_all add: fold_ta_set_length)

lemma createMultiTone_finite:
  fixes frequencies :: "number list"
  assumes "0 \<le> d" "0 \<le> r" and prod: "binary64_mul (Num d) (Num r) = Num p"
  shows "createMultiTone frequencies amplitudes (Num d) (Num r) now =
     Returns \<lparr>samples =
                map (\<lambda>i. fold (\<lambda>freqIndex v.
                             fround (num_add v
                               (num_mul (amplitude_or_1 amplitudes freqIndex)
                                  (Math_sin (num_mul (num_mul (num_mul (Num 2) Math_PI)
                                                        (ta_get frequencies freqIndex))
                                                     (num_div (Num (real i)) (Num r)))))))
                           [0..<length frequencies] (Num 0))
                    [0..<nat \<lfloor>p\<rfloor>],
              sampleRate = Num r, timestamp = now, duration = Num d\<rparr>"
proof -
  let ?n = "nat \<lfloor>p\<rfloor>"
  let ?g = "\<lambda>freqIndex i v. num_add v
                               (num_mul (amplitude_or_1 amplitudes freqIndex)
                                  (Math_sin (num_mul (num_mul (num_mul (Num 2) Math_PI)
                                                        (ta_get frequencies freqIndex))
                                                     (num_div (Num (real i)) (Num r)))))"
  let ?res = "fold (\<lambda>x a. fold (\<lambda>i a. ta_set a i (?g x i (ta_get a i))) [0..<?n] a)
                [0..<length frequencies] (zeros ?n)"
  have "0 \<le> p" using assms by (rule binary64_mul_nonneg)
  then have fl: "0 \<le> \<lfloor>p\<rfloor>" by simp
  then have tr: "\<not> trunc (real_of_int \<lfloor>p\<rfloor>) < 0" "nat (trunc (real_of_int \<lfloor>p\<rfloor>)) = ?n"
    by (simp_all add: trunc_def)
  have ce: "nat \<lceil>real_of_int \<lfloor>p\<rfloor>\<rceil> = ?n" by simp
  have run: "createMultiTone frequencies amplitudes (Num d) (Num r) now =
     Returns \<lparr>samples = ?res, sampleRate = Num r, timestamp = now, duration = Num d\<rparr>"
    using tr
    by (simp only: createMultiTone_def Let_def new_Float32Array_def Math_floor.simps
        prod ToIndex.simps if_False and_then.simps for_loop_Num for_upto_fold ce
        fold_and_then_Returns ceiling_of_nat nat_int)
  have len: "length ?res = ?n"
    using fold_accumulate_length [of ?g ?n "[0..<length frequencies]" "zeros ?n"]
    by (simp only: zeros_def length_replicate)
  have "?res = map (\<lambda>i. fold (\<lambda>x v. fround (?g x i v)) [0..<length frequencies] (Num 0)) [0..<?n]"
  proof (rule nth_equalityI)
    show "length ?res = length (map (\<lambda>i. fold (\<lambda>x v. fround (?g x i v)) [0..<length frequencies] (Num 0)) [0..<?n])"
      by (simp only: len length_map length_upt diff_zero)
  next
    fix j assume "j < length ?res"
    then have j: "j < ?n" by (simp only: len)
    then have z: "j < length (zeros ?n)" "length (zeros ?n) \<le> ?n" "zeros ?n ! j = Num 0"
      by (simp_all add: zeros_def)
    have "?res ! j = fold (\<lambda>x v. fround (?g x j v)) [0..<length frequencies] (zeros ?n ! j)"
      using z(1,2) by (rule fold_accumulate_nth)
    with j z(3) show "?res ! j = map (\<lambda>i. fold (\<lambda>x v. fround (?g x i v)) [0..<length frequencies] (Num 0)) [0..<?n] ! j"
      by (simp only: nth_map_upt diff_zero add_0)
  qed
  with run show ?thesis by (simp only:)
qed

lemma fround_sin [simp]: "fround (Math_sin v) = Math_sin v"
  by (cases v) (simp_all add: fround_unit)

lemma and_then_Returns_iff:
  "and_then m k = Returns y \<longleftrightarrow> (\<exists>x. m = Returns x \<and> k x = Returns y)"
  by (cases m) simp_all

lemma alloc_filled_nth:
  assumes "alloc_filled n f = Returns a" "i < length a"
  shows "a ! i = fround (f i)"
proof (cases n)
  case (Num x)
  with assms(1) have "a = map (\<lambda>i. fround (f i)) [0..<nat \<lfloor>x\<rfloor>]"
    by (simp add: alloc_filled_def split: if_splits)
  moreover from this assms(2) have "i < nat \<lfloor>x\<rfloor>" by simp
  ultimately show ?thesis by simp
next
  case NaN
  with assms show ?thesis by (simp add: alloc_filled_def)
next
  case PosInf
  with assms show ?thesis by (simp add: alloc_filled_def)
next
  case NegInf
  with assms show ?thesis by (simp add: alloc_filled_def)
qed

lemma alloc_filled_4:
  "alloc_filled (Math_floor (binary64_mul (Num 1) (Num 4))) f = Returns (map (\<lambda>i. fround (f i)) [0..<4])"
  by (simp add: alloc_filled_def round64_4)

lemma createChirp_4:
  "createChirp (Num 100) (Num 400) (Num 1) (Num 4) (Num 0) =
     Returns \<lparr>samples = map (\<lambda>i. Math_sin (num_mul (num_mul (num_mul (Num 2) Math_PI)
                          (instantFreq (Num 100) (Num 400) (Num 1) (num_div (Num (real i)) (Num 4))))
                          (num_div (Num (real i)) (Num 4)))) [0..<4],
              sampleRate = Num 4, timestamp = Num 0, duration = Num 1\<rparr>"
  by (simp only: createChirp_alloc alloc_filled_4 fround_sin and_then.simps)

lemma extractChunk_alloc:
  fixes samples :: Float32Array
  shows "extractChunk samples chunkSize =
     alloc_filled chunkSize (\<lambda>i. if i < length samples then ta_get samples i else Num 0)"
  by (simp only: extractChunk_def alloc_fill)

lemma processSignal_unfold:
  "processSignal this now signal =
     and_then (alloc_filled (fftSize (config this))
                 (\<lambda>i. if i < length (samples signal) then ta_get (samples signal) i else Num 0))
       (\<lambda>chunk.
     and_then (applyWindow chunk (windowType (config this))) (\<lambda>windowedChunk.
     and_then (alloc_filled (num_div (fftSize (config this)) (Num 2))
                 (\<lambda>i. num_div (num_mul (Num (real i)) (sampleRate signal)) (fftSize (config this))))
       (\<lambda>frequencies.
          Returns \<lparr>frequencies = frequencies,
                   magnitudes = convertToDecibels (computeMagnitudes (computeFFT windowedChunk)),
                   timestamp = now,
                   binWidth = num_div (sampleRate signal) (fftSize (config this))\<rparr>)))"
  by (simp only: processSignal_def Let_def extractChunk_alloc createFrequencyAxis_alloc)

lemma alloc_filled_Throws:
  "x \<le> - 1 \<Longrightarrow> alloc_filled (Num x) f = Throws RangeError"
  by (simp add: alloc_filled_def)

lemma alloc_filled_Num:
  "- 1 < x \<Longrightarrow> alloc_filled (Num x) f = Returns (map (\<lambda>i. fround (f i)) [0..<nat \<lfloor>x\<rfloor>])"
  by (simp add: alloc_filled_def)

lemma applyWindow_unknown:
  assumes "wt \<noteq> ''rectangular''" "wt \<noteq> ''hanning''" "wt \<noteq> ''hamming''"
  shows "applyWindow chunk wt = Throws (Error (''Unknown window type: '' @ wt))"
  using assms by (simp add: applyWindow_def)

lemma applyWindow_with:
  assumes "(if wt = ''rectangular'' then rectangular (Num (real (length chunk)))
        else if wt = ''hanning'' then hanning (Num (real (length chunk)))
        else if wt = ''hamming'' then hamming (Num (real (length chunk)))
        else Throws (Error (''Unknown window type: '' @ wt))) = Returns window"
  shows "applyWindow chunk wt =
     Returns (map (\<lambda>i. fround (num_mul (ta_get chunk i) (ta_get window i))) [0..<length chunk])"
  using assms by (simp only: applyWindow_def and_then.simps for_upto_nat_fill)

lemma length_window_of [simp]: "length (window_of wt N) = N"
  by (simp add: window_of_def)

lemma applyWindow_known:
  assumes "wt = ''rectangular'' \<or> wt = ''hanning'' \<or> wt = ''hamming''"
  shows "applyWindow chunk wt =
           Returns (map (\<lambda>i. fround (num_mul (ta_get chunk i) (ta_get (window_of wt (length chunk)) i)))
                        [0..<length chunk])"
proof (rule applyWindow_with)
  from assms consider "wt = ''rectangular''" | "wt = ''hanning''" | "wt = ''hamming''" by blast
  then show "(if wt = ''rectangular'' then rectangular (Num (real (length chunk)))
        else if wt = ''hanning'' then hanning (Num (real (length chunk)))
        else if wt = ''hamming'' then hamming (Num (real (length chunk)))
        else Throws (Error (''Unknown window type: '' @ wt))) = Returns (window_of wt (length chunk))"
  proof cases
    case 1
    then show ?thesis by (simp add: rectangular_nat window_of_def)
  next
    case 2
    then show ?thesis by (simp add: hanning_nat window_of_def)
  next
    case 3
    then show ?thesis by (simp add: hamming_nat window_of_def)
  qed
qed

lemma ToIndex_alloc_filled:
  assumes "ToIndex n = Returns F"
  shows "alloc_filled n f = Returns (map (\<lambda>i. fround (f i)) [0..<F])"
proof (cases n)
  case (Num x)
  with assms have "\<not> trunc x < 0" "F = nat (trunc x)" by (auto split: if_splits)
  then have "\<not> x \<le> - 1" "F = nat \<lfloor>x\<rfloor>" by (simp_all add: trunc_neg_iff nat_trunc)
  with Num show ?thesis by (simp add: alloc_filled_def)
next
  case NaN
  with assms show ?thesis by (auto simp: alloc_filled_def)
next
  case PosInf
  with assms show ?thesis by simp
next
  case NegInf
  with assms show ?thesis by simp
qed

subsection \<open>The transform on finite samples\<close>

lemma angle_Num: "N \<noteq> 0 \<Longrightarrow> angle k n N = Num (- 2 * pi * real k * real n / real N)"
  by (simp add: angle_def Math_PI_def)

lemma fold_num_add_sum:
  assumes "\<And>n. n < N \<Longrightarrow> t n = Num (f n)"
  shows "fold (\<lambda>n s. num_add s (t n)) [0..<N] (Num 0) = Num (\<Sum>n<N. f n)"
proof -
  have "fold (\<lambda>n s. num_add s (t n)) [0..<N] (Num 0) =
        fold (\<lambda>n s. num_add s (Num (f n))) [0..<N] (Num 0)"
    by (rule fold_cong) (simp_all add: assms)
  also have "\<dots> = Num (0 + sum_list (map f [0..<N]))" by (rule fold_num_add_finite)
  also have "sum_list (map f [0..<N]) = (\<Sum>n<N. f n)"
    by (simp add: interv_sum_list_conv_sum_set_nat lessThan_atLeast0)
  finally show ?thesis by simp
qed

lemma computeFFT_finite:
  assumes "k < length (computeFFT (map Num x))"
  shows "computeFFT (map Num x) ! k = \<lparr>real_part = Num (dft_real x k), imag_part = Num (dft_imag x k)\<rparr>"
proof -
  let ?N = "length x"
  from assms have k: "k < nat \<lceil>real ?N / 2\<rceil>" by (simp add: computeFFT_map)
  then have N: "?N \<noteq> 0" by auto
  have re: "fold (\<lambda>n s. num_add s (num_mul (ta_get (map Num x) n) (Math_cos (angle k n ?N)))) [0..<?N] (Num 0) =
            Num (dft_real x k)"
    unfolding dft_real_def
    by (rule fold_num_add_sum) (simp add: ta_get_def angle_Num [OF N])
  have im: "fold (\<lambda>n s. num_add s (num_mul (ta_get (map Num x) n) (Math_sin (angle k n ?N)))) [0..<?N] (Num 0) =
            Num (dft_imag x k)"
    unfolding dft_imag_def
    by (rule fold_num_add_sum) (simp add: ta_get_def angle_Num [OF N])
  have "computeFFT (map Num x) ! k =
     \<lparr>real_part = fold (\<lambda>n s. num_add s (num_mul (ta_get (map Num x) n) (Math_cos (angle k n (length (map Num x)))))) [0..<length (map Num x)] (Num 0),
      imag_part = fold (\<lambda>n s. num_add s (num_mul (ta_get (map Num x) n) (Math_sin (angle k n (length (map Num x)))))) [0..<length (map Num x)] (Num 0)\<rparr>"
    unfolding computeFFT_map using k by (simp only: nth_map_upt length_map add_0 diff_zero)
  then show ?thesis by (simp only: length_map re im)
qed

lemma computeMagnitudes_finite:
  assumes "k < length (computeFFT (map Num x))"
  shows "computeMagnitudes (computeFFT (map Num x)) ! k = fround (Num (dft_magnitude x k))"
proof -
  have "computeMagnitudes (computeFFT (map Num x)) ! k =
        fround (Math_sqrt (num_add (num_mul (Num (dft_real x k)) (Num (dft_real x k)))
                                   (num_mul (Num (dft_imag x k)) (Num (dft_imag x k)))))"
    using assms by (simp add: computeMagnitudes_map computeFFT_finite)
  also have "\<dots> = fround (Num (dft_magnitude x k))"
    using sum_squares_ge_zero [of "dft_real x k" "dft_imag x k"]
    by (simp add: dft_magnitude_def power2_eq_square not_less [symmetric])
  finally show ?thesis .
qed

lemma log10_pow: "log 10 ((10::real) ^ n) = real n"
  by (simp add: log_nat_power)

lemma log10_floor: "log 10 (1 / 10 ^ 10) = - 10"
proof -
  have "log 10 (1 / 10 ^ 10) = - log 10 (10 ^ 10)" by (simp add: log_divide)
  also have "log 10 ((10::real) ^ 10) = 10" using log10_pow [of 10] by simp
  finally show ?thesis by simp
qed

lemma dB_lower: "- 200 \<le> 20 * log 10 (max m (1 / 10 ^ 10))"
proof -
  have "log 10 (1 / 10 ^ 10) \<le> log 10 (max m (1 / 10 ^ 10))"
    by (subst log_le_cancel_iff) simp_all
  then show ?thesis by (simp only: log10_floor)
qed

lemma f32_threshold_less: "f32_threshold < 10 ^ 128"
proof -
  have "f32_threshold < 2 ^ 128" by (simp add: f32_threshold_def)
  also have "(2::real) ^ 128 < 10 ^ 128" by (rule power_strict_mono) simp_all
  finally show ?thesis .
qed

lemma dB_upper:
  assumes "m < f32_threshold"
  shows "20 * log 10 (max m (1 / 10 ^ 10)) < 2560"
proof -
  have pos: "0 < max m (1 / 10 ^ 10)" by (simp add: less_max_iff_disj)
  have "(1::real) / 10 ^ 10 < 10 ^ 128" by simp
  with assms f32_threshold_less have "max m (1 / 10 ^ 10) < 10 ^ 128" by simp
  with pos have "log 10 (max m (1 / 10 ^ 10)) < log 10 (10 ^ 128)"
    by (subst log_less_cancel_iff) simp_all
  also have "log 10 ((10::real) ^ 128) = 128" using log10_pow [of 128] by simp
  finally show ?thesis by simp
qed

lemma dB_finite:
  assumes "m < f32_threshold"
  shows "fround (num_mul (Num 20) (Math_log10 (Math_max (Num m) (Num (1 / 10 ^ 10))))) =
         Num (20 * log 10 (max m (1 / 10 ^ 10)))"
proof -
  have pos: "0 < max m (1 / 10 ^ 10)" by (simp add: less_max_iff_disj)
  have "(2560::real) < f32_threshold" by (simp add: f32_threshold_def)
  with dB_lower [of m] dB_upper [OF assms]
  have "\<bar>20 * log 10 (max m (1 / 10 ^ 10))\<bar> < f32_threshold" by linarith
  then have "fround (Num (20 * log 10 (max m (1 / 10 ^ 10)))) = Num (20 * log 10 (max m (1 / 10 ^ 10)))"
    by (rule fround_in_range)
  moreover have "num_mul (Num 20) (Math_log10 (Math_max (Num m) (Num (1 / 10 ^ 10)))) =
        Num (20 * log 10 (max m (1 / 10 ^ 10)))"
    using pos by (simp del: max_less_iff_conj less_max_iff_disj)
  ultimately show ?thesis by (simp only:)
qed

lemma dB_overflow:
  "fround (num_mul (Num 20) (Math_log10 (Math_max PosInf (Num (1 / 10 ^ 10))))) = PosInf"
  by simp

lemma length_computeMagnitudes [simp]:
  "length (computeMagnitudes complexData) = length complexData"
  by (simp add: computeMagnitudes_map)

lemma length_convertToDecibels [simp]:
  "length (convertToDecibels m) = length m"
  by (simp add: convertToDecibels_map)

lemma convertToDecibels_nth:
  assumes "k < length m"
  shows "convertToDecibels m ! k =
         fround (num_mul (Num 20) (Math_log10 (Math_max (m ! k) (Num (1 / 10 ^ 10)))))"
  using assms by (simp add: convertToDecibels_map ta_get_def)

lemma dft_magnitude_nonneg: "0 \<le> dft_magnitude x k"
  by (simp add: dft_magnitude_def)

subsection \<open>The pipeline on finite samples\<close>

lemma window_of_finite:
  assumes "N \<noteq> 1 \<or> wt = ''rectangular''"
  shows "window_of wt N = map (\<lambda>i. Num (window_coeff wt N i)) [0..<N]"
proof (cases "wt = ''rectangular''")
  case True
  then show ?thesis by (simp add: window_of_def window_coeff_def map_replicate_const)
next
  case False
  with assms have N: "N \<noteq> 1" by simp
  show ?thesis
  proof (cases "wt = ''hanning''")
    case True
    then show ?thesis
      by (simp only: window_of_def window_coeff_def hanning_coeff [OF N]) simp
  next
    case h: False
    with False show ?thesis
      by (simp only: window_of_def window_coeff_def hamming_coeff [OF N] if_False)
  qed
qed

lemma window_coeff_bound: "\<bar>window_coeff wt N i\<bar> \<le> 1"
proof -
  have c: "\<bar>cos (2 * pi * real i / (real N - 1))\<bar> \<le> 1" by (rule abs_cos_le_one)
  show ?thesis
  proof (cases "wt = ''rectangular''")
    case True
    then show ?thesis by (simp add: window_coeff_def)
  next
    case r: False
    show ?thesis
    proof (cases "wt = ''hanning''")
      case True
      with r hanning_bound [OF c] show ?thesis by (simp add: window_coeff_def)
    next
      case False
      with r hamming_bound [OF c] show ?thesis by (simp add: window_coeff_def)
    qed
  qed
qed

lemma fround_product:
  assumes "\<bar>c\<bar> < f32_threshold" "\<bar>w\<bar> \<le> 1"
  shows "fround (num_mul (Num c) (Num w)) = Num (c * w)"
proof -
  have "\<bar>c * w\<bar> = \<bar>c\<bar> * \<bar>w\<bar>" by (rule abs_mult)
  also have "\<dots> \<le> \<bar>c\<bar> * 1" using assms(2) by (intro mult_left_mono) simp_all
  finally have "\<bar>c * w\<bar> < f32_threshold" using assms(1) by simp
  then show ?thesis by (simp add: fround_in_range)
qed

lemma applyWindow_finite:
  assumes known: "wt = ''rectangular'' \<or> wt = ''hanning'' \<or> wt = ''hamming''"
    and one: "length ch \<noteq> 1 \<or> wt = ''rectangular''"
    and range: "\<forall>c \<in> set ch. \<bar>c\<bar> < f32_threshold"
  shows "applyWindow (map Num ch) wt =
           Returns (map Num (map (\<lambda>i. ch ! i * window_coeff wt (length ch) i) [0..<length ch]))"
proof -
  let ?N = "length ch"
  have "map (\<lambda>i. fround (num_mul (ta_get (map Num ch) i) (ta_get (window_of wt ?N) i))) [0..<?N] =
        map (\<lambda>i. Num (ch ! i * window_coeff wt ?N i)) [0..<?N]"
  proof (rule map_cong [OF refl])
    fix i assume "i \<in> set [0..<?N]"
    then have i: "i < ?N" by simp
    with range have r: "\<bar>ch ! i\<bar> < f32_threshold" by simp
    from i have "ta_get (map Num ch) i = Num (ch ! i)" by (simp add: ta_get_def)
    moreover from i have "ta_get (window_of wt ?N) i = Num (window_coeff wt ?N i)"
      by (simp add: ta_get_def window_of_finite [OF one])
    ultimately show "fround (num_mul (ta_get (map Num ch) i) (ta_get (window_of wt ?N) i)) =
        Num (ch ! i * window_coeff wt ?N i)"
      using fround_product [OF r window_coeff_bound [of wt ?N i]] by (simp only:)
  qed
  then show ?thesis
    using applyWindow_known [OF known, of "map Num ch"] by (simp only: length_map map_map o_def)
qed

lemma extractChunk_take_pad:
  fixes samples :: Float32Array
  assumes "list_all is_f32 samples"
  shows "extractChunk samples (Num (real F)) =
           Returns (take F samples @ replicate (F - length samples) (Num 0))"
proof -
  have "map (\<lambda>i. fround (if i < length samples then ta_get samples i else Num 0)) [0..<F] =
        take F samples @ replicate (F - length samples) (Num 0)"
  proof (rule nth_equalityI)
    show "length (map (\<lambda>i. fround (if i < length samples then ta_get samples i else Num 0)) [0..<F]) =
          length (take F samples @ replicate (F - length samples) (Num 0))"
      by simp
  next
    fix j
    assume "j < length (map (\<lambda>i. fround (if i < length samples then ta_get samples i else Num 0)) [0..<F])"
    then have j: "j < F" by simp
    show "map (\<lambda>i. fround (if i < length samples then ta_get samples i else Num 0)) [0..<F] ! j =
          (take F samples @ replicate (F - length samples) (Num 0)) ! j"
    proof (cases "j < length samples")
      case True
      with assms have "fround (samples ! j) = samples ! j"
        by (simp add: list_all_length is_f32_def)
      with True j show ?thesis by (simp add: nth_append ta_get_def)
    next
      case False
      with j show ?thesis by (simp add: nth_append)
    qed
  qed
  then show ?thesis by (simp add: extractChunk_map)
qed

lemma chunk_of_finite:
  assumes "\<forall>c \<in> set cs. \<bar>c\<bar> < f32_threshold"
  shows "extractChunk (map Num cs) (Num (real F)) =
           Returns (map Num (take F cs @ replicate (F - length cs) 0))"
proof -
  have "list_all is_f32 (map Num cs)"
    using assms by (simp add: list_all_iff is_f32_def fround_in_range)
  then have "extractChunk (map Num cs) (Num (real F)) =
           Returns (take F (map Num cs) @ replicate (F - length (map Num cs)) (Num 0))"
    by (rule extractChunk_take_pad)
  then show ?thesis by (simp add: take_map)
qed

lemma floor_half: "nat \<lfloor>real F / 2\<rfloor> = F div 2"
  by linarith

lemma frequency_axis_nat:
  "alloc_filled (num_div (Num (real F)) (Num 2)) f = Returns (map (\<lambda>i. fround (f i)) [0..<F div 2])"
proof -
  have "- 1 < real F / 2" by (rule less_le_trans [of _ 0]) simp_all
  then have "alloc_filled (Num (real F / 2)) f = Returns (map (\<lambda>i. fround (f i)) [0..<nat \<lfloor>real F / 2\<rfloor>])"
    by (rule alloc_filled_Num)
  then show ?thesis by (simp add: floor_half)
qed

lemma processSignal_nat:
  assumes size: "fftSize (config this) = Num (real F)"
    and known: "windowType (config this) = ''rectangular'' \<or> windowType (config this) = ''hanning'' \<or>
                windowType (config this) = ''hamming''"
    and chunk: "extractChunk (samples signal) (Num (real F)) = Returns chunk"
    and windowed: "applyWindow chunk (windowType (config this)) = Returns windowedChunk"
  shows "processSignal this now signal =
     Returns \<lparr>frequencies =
                map (\<lambda>i. fround (num_div (num_mul (Num (real i)) (sampleRate signal)) (Num (real F))))
                    [0..<F div 2],
              magnitudes = convertToDecibels (computeMagnitudes (computeFFT windowedChunk)),
              timestamp = now,
              binWidth = num_div (sampleRate signal) (Num (real F))\<rparr>"
  using chunk windowed
  by (simp only: processSignal_unfold size extractChunk_alloc [symmetric] and_then.simps
      frequency_axis_nat)

lemma processSignal_lengths:
  assumes size: "fftSize (config this) = Num (real F)"
    and known: "windowType (config this) = ''rectangular'' \<or> windowType (config this) = ''hanning'' \<or>
                windowType (config this) = ''hamming''"
  shows "\<exists>spectrum. processSignal this now signal = Returns spectrum \<and>
           length (frequencies spectrum) = F div 2 \<and>
           length (magnitudes spectrum) = (F + 1) div 2"
proof -
  let ?chunk = "map (\<lambda>i. fround (if i < length (samples signal) then ta_get (samples signal) i else Num 0)) [0..<F]"
  let ?w = "map (\<lambda>i. fround (num_mul (ta_get ?chunk i) (ta_get (window_of (windowType (config this)) (length ?chunk)) i)))
                        [0..<length ?chunk]"
  have c: "extractChunk (samples signal) (Num (real F)) = Returns ?chunk" by (rule extractChunk_map)
  have w: "applyWindow ?chunk (windowType (config this)) = Returns ?w"
    using known by (rule applyWindow_known)
  have "length ?w = F" by simp
  then have "length (convertToDecibels (computeMagnitudes (computeFFT ?w))) = (F + 1) div 2"
    by (simp only: length_convertToDecibels length_computeMagnitudes length_computeFFT)
  then show ?thesis
    unfolding processSignal_nat [OF size known c w] by simp
qed

lemma length_padded [simp]: "length (take F cs @ replicate (F - length cs) (0::real)) = F"
  by simp

lemma padded_range:
  assumes "\<forall>c \<in> set cs. \<bar>c\<bar> < f32_threshold"
  shows "\<forall>c \<in> set (take F cs @ replicate (F - length cs) 0). \<bar>c\<bar> < f32_threshold"
proof
  fix c assume "c \<in> set (take F cs @ replicate (F - length cs) 0)"
  then have "c \<in> set cs \<or> c = 0" by (auto dest: in_set_takeD)
  moreover have "0 < f32_threshold" by (simp add: f32_threshold_def)
  ultimately show "\<bar>c\<bar> < f32_threshold" using assms by auto
qed

lemma processSignal_finite:
  assumes size: "fftSize (config this) = Num (real F)"
    and known: "windowType (config this) = ''rectangular'' \<or> windowType (config this) = ''hanning'' \<or>
                windowType (config this) = ''hamming''"
    and one: "F \<noteq> 1 \<or> windowType (config this) = ''rectangular''"
    and finite: "samples signal = map Num cs"
    and range: "\<forall>c \<in> set cs. \<bar>c\<bar> < f32_threshold"
  shows "processSignal this now signal =
     Returns \<lparr>frequencies =
                map (\<lambda>i. fround (num_div (num_mul (Num (real i)) (sampleRate signal)) (Num (real F))))
                    [0..<F div 2],
              magnitudes =
                convertToDecibels (computeMagnitudes (computeFFT
                  (map Num (windowed_chunk (windowType (config this)) F cs)))),
              timestamp = now,
              binWidth = num_div (sampleRate signal) (Num (real F))\<rparr>"
proof -
  let ?ch = "take F cs @ replicate (F - length cs) 0"
  have c: "extractChunk (samples signal) (Num (real F)) = Returns (map Num ?ch)"
    unfolding finite using range by (rule chunk_of_finite)
  have one': "length ?ch \<noteq> 1 \<or> windowType (config this) = ''rectangular''"
    using one by (simp only: length_padded)
  have "applyWindow (map Num ?ch) (windowType (config this)) =
           Returns (map Num (map (\<lambda>i. ?ch ! i * window_coeff (windowType (config this)) (length ?ch) i)
                                 [0..<length ?ch]))"
    using known one' padded_range [OF range] by (rule applyWindow_finite)
  then have w: "applyWindow (map Num ?ch) (windowType (config this)) =
           Returns (map Num (windowed_chunk (windowType (config this)) F cs))"
    by (simp only: length_padded windowed_chunk_def)
  show ?thesis by (rule processSignal_nat [OF size known c w])
qed

lemma decibel_values:
  assumes "k < length (computeFFT (map Num x))"
  shows "convertToDecibels (computeMagnitudes (computeFFT (map Num x))) ! k =
           (if dft_magnitude x k < f32_threshold then Num (dft_dB x k) else PosInf)"
proof -
  from assms have "k < length (computeMagnitudes (computeFFT (map Num x)))" by simp
  then have d: "convertToDecibels (computeMagnitudes (computeFFT (map Num x))) ! k =
         fround (num_mul (Num 20) (Math_log10 (Math_max (fround (Num (dft_magnitude x k)))
                                                         (Num (1 / 10 ^ 10)))))"
    by (simp only: convertToDecibels_nth computeMagnitudes_finite [OF assms])
  show ?thesis
  proof (cases "dft_magnitude x k < f32_threshold")
    case True
    with dft_magnitude_nonneg [of x k] have "\<bar>dft_magnitude x k\<bar> < f32_threshold" by simp
    then have "fround (Num (dft_magnitude x k)) = Num (dft_magnitude x k)" by (rule fround_in_range)
    with True show ?thesis by (simp only: d dB_finite dft_dB_def if_True)
  next
    case False
    then have "fround (Num (dft_magnitude x k)) = PosInf" by (simp add: fround_overflow)
    with False show ?thesis by (simp only: d dB_overflow if_False)
  qed
qed

lemma dft_zero:
  assumes "\<forall>c \<in> set x. c = 0"
  shows "dft_magnitude x k = 0" "dft_dB x k = - 200"
proof -
  have z: "\<And>n. n < length x \<Longrightarrow> x ! n = 0" using assms by simp
  have "dft_real x k = 0" "dft_imag x k = 0"
    by (simp_all add: dft_real_def dft_imag_def z)
  then show m: "dft_magnitude x k = 0" by (simp add: dft_magnitude_def)
  have "dft_dB x k = 20 * log 10 (1 / 10 ^ 10)" by (simp add: dft_dB_def m)
  then show "dft_dB x k = - 200" by (simp only: log10_floor)
qed

lemma windowed_chunk_zero:
  assumes "\<forall>c \<in> set cs. c = 0"
  shows "\<forall>c \<in> set (windowed_chunk wt F cs). c = 0"
proof -
  have "\<And>i. i < F \<Longrightarrow> (take F cs @ replicate (F - length cs) 0) ! i = 0"
  proof -
    fix i assume "i < F"
    then have "(take F cs @ replicate (F - length cs) 0) ! i \<in> set (take F cs @ replicate (F - length cs) 0)"
      by (intro nth_mem) simp
    then have "(take F cs @ replicate (F - length cs) 0) ! i \<in> set cs \<or>
               (take F cs @ replicate (F - length cs) 0) ! i = 0"
      by (auto dest: in_set_takeD)
    with assms show "(take F cs @ replicate (F - length cs) 0) ! i = 0" by auto
  qed
  then show ?thesis by (simp add: windowed_chunk_def)
qed

subsection \<open>Two runs of processSignal\<close>

lemma list_length_1: "length xs = 1 \<Longrightarrow> xs = [xs ! 0]"
  by (cases xs) simp_all

lemma list_length_2: "length xs = 2 \<Longrightarrow> xs = [xs ! 0, xs ! 1]"
proof (cases xs)
  case Nil
  assume "length xs = 2"
  with Nil show ?thesis by simp
next
  case (Cons a ys)
  assume "length xs = 2"
  with Cons have "length ys = 1" by simp
  then have "ys = [ys ! 0]" by (rule list_length_1)
  with Cons show ?thesis by simp
qed

lemma sqrt_square_zero: "0 \<le> a \<Longrightarrow> sqrt (a\<^sup>2 + 0\<^sup>2) = a"
  by simp

lemma dft_magnitude_two_samples: "dft_magnitude [2 ^ 127, 2 ^ 127] 0 = 2 ^ 128"
proof -
  have re: "dft_real [2 ^ 127, 2 ^ 127] 0 = 2 ^ 128" and im: "dft_imag [2 ^ 127, 2 ^ 127] 0 = 0"
    by (simp_all add: dft_real_def dft_imag_def lessThan_Suc numeral_2_eq_2)
  have "dft_magnitude [2 ^ 127, 2 ^ 127] 0 = sqrt ((2 ^ 128)\<^sup>2 + 0\<^sup>2)"
    by (simp only: dft_magnitude_def re im)
  also have "\<dots> = 2 ^ 128" by (rule sqrt_square_zero) simp
  finally show ?thesis .
qed

lemma overflow_run:
  "processSignal \<lparr>config = \<lparr>fftSize = Num 2, windowType = ''rectangular'', averagingCount = Num 1\<rparr>\<rparr>
       (Num 0)
       \<lparr>samples = [Num (2 ^ 127), Num (2 ^ 127)], sampleRate = Num 44100, timestamp = Num 0,
          duration = Num 1\<rparr> =
     Returns \<lparr>frequencies = [Num 0], magnitudes = [PosInf], timestamp = Num 0,
              binWidth = Num 22050\<rparr>"
proof -
  let ?eng = "\<lparr>config = \<lparr>fftSize = Num 2, windowType = ''rectangular'', averagingCount = Num 1\<rparr>\<rparr>"
  let ?sig = "\<lparr>samples = [Num (2 ^ 127), Num (2 ^ 127)], sampleRate = Num 44100, timestamp = Num 0,
          duration = Num 1\<rparr>"
  let ?cs = "[2 ^ 127, 2 ^ 127 :: real]"
  let ?db = "convertToDecibels (computeMagnitudes (computeFFT (map Num ?cs)))"
  have size: "fftSize (config ?eng) = Num (real 2)" by simp
  have known: "windowType (config ?eng) = ''rectangular'' \<or> windowType (config ?eng) = ''hanning'' \<or>
                windowType (config ?eng) = ''hamming''" by simp
  have one: "2 \<noteq> (1::nat) \<or> windowType (config ?eng) = ''rectangular''" by simp
  have finite: "samples ?sig = map Num ?cs" by simp
  have range: "\<forall>c \<in> set ?cs. \<bar>c\<bar> < f32_threshold" by (simp add: f32_threshold_def)
  have ws: "windowed_chunk (windowType (config ?eng)) 2 ?cs = ?cs"
    by (simp add: windowed_chunk_def window_coeff_def upt_rec numeral_2_eq_2)
  have run: "processSignal ?eng (Num 0) ?sig =
     Returns \<lparr>frequencies =
                map (\<lambda>i. fround (num_div (num_mul (Num (real i)) (sampleRate ?sig)) (Num (real 2))))
                    [0..<2 div 2],
              magnitudes = ?db, timestamp = Num 0,
              binWidth = num_div (sampleRate ?sig) (Num (real 2))\<rparr>"
    using processSignal_finite [OF size known one finite range, of "Num 0"] by (simp only: ws)
  have len: "length ?db = 1" by (simp add: length_computeFFT)
  have re: "dft_real ?cs 0 = 2 ^ 128" and im: "dft_imag ?cs 0 = 0"
    by (simp_all add: dft_real_def dft_imag_def lessThan_Suc numeral_2_eq_2)
  have "dft_magnitude ?cs 0 = sqrt ((2 ^ 128)\<^sup>2 + 0\<^sup>2)"
    by (simp only: dft_magnitude_def re im)
  also have "\<dots> = 2 ^ 128" by (rule sqrt_square_zero) simp
  finally have mag: "dft_magnitude ?cs 0 = 2 ^ 128" .
  have "\<not> dft_magnitude ?cs 0 < f32_threshold" unfolding mag by (simp add: f32_threshold_def)
  moreover have "0 < length (computeFFT (map Num ?cs))" by (simp add: length_computeFFT)
  ultimately have "?db ! 0 = PosInf" by (simp only: decibel_values if_False)
  with list_length_1 [OF len] have db: "?db = [PosInf]" by (simp only:)
  have fr: "map (\<lambda>i. fround (num_div (num_mul (Num (real i)) (sampleRate ?sig)) (Num (real 2))))
                    [0..<2 div 2] = [Num 0]"
    by (simp add: upt_rec)
  have bw: "num_div (sampleRate ?sig) (Num (real 2)) = Num 22050" by simp
  show ?thesis by (simp only: run db fr bw)
qed

lemma nan_run:
  "processSignal \<lparr>config = \<lparr>fftSize = Num 1, windowType = ''hanning'', averagingCount = Num 1\<rparr>\<rparr>
       (Num 0)
       \<lparr>samples = [], sampleRate = Num 44100, timestamp = Num 0, duration = Num 0\<rparr> =
     Returns \<lparr>frequencies = [], magnitudes = [NaN], timestamp = Num 0, binWidth = Num 44100\<rparr>"
proof -
  let ?eng = "\<lparr>config = \<lparr>fftSize = Num 1, windowType = ''hanning'', averagingCount = Num 1\<rparr>\<rparr>"
  let ?sig = "\<lparr>samples = [], sampleRate = Num 44100, timestamp = Num 0, duration = Num 0\<rparr>"
  have size: "fftSize (config ?eng) = Num (real 1)" by simp
  have known: "windowType (config ?eng) = ''rectangular'' \<or> windowType (config ?eng) = ''hanning'' \<or>
                windowType (config ?eng) = ''hamming''" by simp
  have c: "extractChunk (samples ?sig) (Num (real 1)) = Returns [Num 0]"
    using extractChunk_map [of "[]" 1] by simp
  have w: "applyWindow [Num 0] (windowType (config ?eng)) = Returns [NaN]"
    by (simp add: applyWindow_known window_of_def num_sub_def Math_PI_def ta_get_def)
  have "nat \<lceil>(1::real) / 2\<rceil> = 1" by linarith
  then have "computeFFT [NaN] = [\<lparr>real_part = NaN, imag_part = NaN\<rparr>]"
    by (simp add: computeFFT_map ta_get_def)
  then have db: "convertToDecibels (computeMagnitudes (computeFFT [NaN])) = [NaN]"
    by (simp add: convertToDecibels_map computeMagnitudes_map ta_get_def)
  show ?thesis
    using processSignal_nat [OF size known c w, of "Num 0"] by (simp add: db)
qed

subsection \<open>The spectrum for an even fftSize\<close>

lemma frequency_value:
  assumes "k < m" "0 < r" "r < f32_threshold"
  shows "fround (num_div (num_mul (Num (real k)) (Num r)) (Num (real (2 * m)))) =
         Num (real k * r / real (2 * m))"
proof -
  from assms(1) have m: "0 < real (2 * m)" by simp
  have "real k \<le> real (2 * m)" using assms(1) by simp
  then have "real k * r \<le> real (2 * m) * r" using assms(2) by (intro mult_right_mono) simp_all
  then have "real k * r / real (2 * m) \<le> r" using m by (simp add: field_simps)
  moreover have "0 \<le> real k * r / real (2 * m)" using assms(2) by simp
  ultimately have "\<bar>real k * r / real (2 * m)\<bar> < f32_threshold" using assms(3) by simp
  then have "fround (Num (real k * r / real (2 * m))) = Num (real k * r / real (2 * m))"
    by (rule fround_in_range)
  moreover have "num_div (num_mul (Num (real k)) (Num r)) (Num (real (2 * m))) =
        Num (real k * r / real (2 * m))"
    using m by simp
  ultimately show ?thesis by (simp only:)
qed

lemma processSignal_even_fftSize:
  assumes size: "fftSize (config this) = Num (real (2 * m))"
    and known: "windowType (config this) = ''rectangular'' \<or> windowType (config this) = ''hanning'' \<or>
                windowType (config this) = ''hamming''"
    and rate: "sampleRate signal = Num r" "0 < r" "r < f32_threshold"
  shows "\<exists>spectrum. processSignal this now signal = Returns spectrum \<and>
           length (frequencies spectrum) = m \<and>
           length (magnitudes spectrum) = m \<and>
           frequencies spectrum = map (\<lambda>k. Num (real k * r / real (2 * m))) [0..<m] \<and>
           (\<forall>i j. i < j \<and> j < m \<longrightarrow> real i * r / real (2 * m) < real j * r / real (2 * m))"
proof -
  let ?F = "2 * m"
  let ?chunk = "map (\<lambda>i. fround (if i < length (samples signal) then ta_get (samples signal) i else Num 0)) [0..<?F]"
  let ?w = "map (\<lambda>i. fround (num_mul (ta_get ?chunk i) (ta_get (window_of (windowType (config this)) (length ?chunk)) i)))
                        [0..<length ?chunk]"
  let ?db = "convertToDecibels (computeMagnitudes (computeFFT ?w))"
  have c: "extractChunk (samples signal) (Num (real ?F)) = Returns ?chunk" by (rule extractChunk_map)
  have w: "applyWindow ?chunk (windowType (config this)) = Returns ?w"
    using known by (rule applyWindow_known)
  have "length ?w = ?F" by simp
  then have len: "length ?db = m"
    by (simp only: length_convertToDecibels length_computeMagnitudes length_computeFFT)
  have fr: "map (\<lambda>i. fround (num_div (num_mul (Num (real i)) (sampleRate signal)) (Num (real ?F))))
                [0..<?F div 2] = map (\<lambda>k. Num (real k * r / real ?F)) [0..<m]"
  proof -
    have "?F div 2 = m" by simp
    moreover have "map (\<lambda>i. fround (num_div (num_mul (Num (real i)) (sampleRate signal)) (Num (real ?F))))
                [0..<m] = map (\<lambda>k. Num (real k * r / real ?F)) [0..<m]"
    proof (rule map_cong [OF refl])
      fix k assume "k \<in> set [0..<m]"
      then have "k < m" by simp
      then show "fround (num_div (num_mul (Num (real k)) (sampleRate signal)) (Num (real ?F))) =
            Num (real k * r / real ?F)"
        unfolding rate(1) using rate(2,3) by (rule frequency_value)
    qed
    ultimately show ?thesis by (simp only:)
  qed
  have mono: "\<forall>i j. i < j \<and> j < m \<longrightarrow> real i * r / real ?F < real j * r / real ?F"
  proof (intro allI impI)
    fix i j assume a: "i < j \<and> j < m"
    then have "0 < real ?F" by simp
    moreover from a rate(2) have "real i * r < real j * r" by simp
    ultimately show "real i * r / real ?F < real j * r / real ?F" by (rule divide_strict_right_mono [rotated])
  qed
  show ?thesis
    unfolding processSignal_nat [OF size known c w] fr using len mono by simp
qed

subsection \<open>The multi-tone signal\<close>

lemma fold_fround_sum:
  assumes "\<And>m. m \<le> N \<Longrightarrow> \<bar>\<Sum>j<m. f j\<bar> < f32_threshold"
  shows "fold (\<lambda>j v. fround (num_add v (Num (f j)))) [0..<N] (Num 0) = Num (\<Sum>j<N. f j)"
  using assms
proof (induction N)
  case 0
  then show ?case by simp
next
  case (Suc N)
  have IH: "fold (\<lambda>j v. fround (num_add v (Num (f j)))) [0..<N] (Num 0) = Num (\<Sum>j<N. f j)"
    by (rule Suc.IH) (simp add: Suc.prems)
  have "\<bar>\<Sum>j<Suc N. f j\<bar> < f32_threshold" by (rule Suc.prems) simp
  then have "fround (Num ((\<Sum>j<N. f j) + f N)) = Num ((\<Sum>j<N. f j) + f N)"
    by (intro fround_in_range) simp
  with IH show ?case by simp
qed

lemma sum_sin_bound:
  fixes a x :: "nat \<Rightarrow> real"
  shows "\<bar>\<Sum>j<m. a j * sin (x j)\<bar> \<le> (\<Sum>j<m. \<bar>a j\<bar>)"
proof -
  have "\<bar>\<Sum>j<m. a j * sin (x j)\<bar> \<le> (\<Sum>j<m. \<bar>a j * sin (x j)\<bar>)" by (rule sum_abs)
  also have "\<dots> \<le> (\<Sum>j<m. \<bar>a j\<bar>)"
  proof (rule sum_mono)
    fix j
    have "\<bar>a j * sin (x j)\<bar> = \<bar>a j\<bar> * \<bar>sin (x j)\<bar>" by (rule abs_mult)
    also have "\<dots> \<le> \<bar>a j\<bar> * 1" by (intro mult_left_mono) simp_all
    finally show "\<bar>a j * sin (x j)\<bar> \<le> \<bar>a j\<bar>" by simp
  qed
  finally show ?thesis .
qed

lemma sum_abs_prefix:
  fixes a :: "nat \<Rightarrow> real"
  assumes "m \<le> N"
  shows "(\<Sum>j<m. \<bar>a j\<bar>) \<le> (\<Sum>j<N. \<bar>a j\<bar>)"
  using assms by (intro sum_mono2) auto

lemma createMultiTone_matches_spec:
  assumes d: "0 \<le> d" and r: "0 < r"
    and nz: "\<forall>a \<in> set as. a \<noteq> 0"
    and bound: "(\<Sum>j<length fs. \<bar>if j < length as then as ! j else 1\<bar>) < f32_threshold"
    and prod: "binary64_mul (Num d) (Num r) = Num p"
  shows "createMultiTone (map Num fs) (map Num as) (Num d) (Num r) now =
           Returns \<lparr>samples = map (\<lambda>i. Num (multiTone_spec fs as (real i / r))) [0..<nat \<lfloor>p\<rfloor>],
                    sampleRate = Num r, timestamp = now, duration = Num d\<rparr>"
proof -
  let ?a = "\<lambda>j. if j < length as then as ! j else (1::real)"
  let ?tone = "\<lambda>i j. ?a j * sin (2 * pi * fs ! j * (real i / r))"
  let ?body = "\<lambda>i freqIndex v.
                             fround (num_add v
                               (num_mul (amplitude_or_1 (map Num as) freqIndex)
                                  (Math_sin (num_mul (num_mul (num_mul (Num 2) Math_PI)
                                                        (ta_get (map Num fs) freqIndex))
                                                     (num_div (Num (real i)) (Num r))))))"
  have amp: "amplitude_or_1 (map Num as) j = Num (?a j)" for j
    using nz by (simp add: amplitude_or_1_def)
  have body: "fold (?body i) [0..<length fs] (Num 0) = Num (multiTone_spec fs as (real i / r))" for i
  proof -
    have "fold (?body i) [0..<length fs] (Num 0) =
          fold (\<lambda>j v. fround (num_add v (Num (?tone i j)))) [0..<length fs] (Num 0)"
    proof (rule fold_cong [OF refl refl])
      fix j assume "j \<in> set [0..<length fs]"
      then have "j < length fs" by simp
      then show "?body i j = (\<lambda>v. fround (num_add v (Num (?tone i j))))"
        using r by (simp add: amp ta_get_def Math_PI_def)
    qed
    also have "\<dots> = Num (\<Sum>j<length fs. ?tone i j)"
    proof (rule fold_fround_sum)
      fix m assume m: "m \<le> length fs"
      have "\<bar>\<Sum>j<m. ?tone i j\<bar> \<le> (\<Sum>j<m. \<bar>?a j\<bar>)" by (rule sum_sin_bound)
      also have "\<dots> \<le> (\<Sum>j<length fs. \<bar>?a j\<bar>)" using m by (rule sum_abs_prefix)
      finally show "\<bar>\<Sum>j<m. ?tone i j\<bar> < f32_threshold" using bound by simp
    qed
    finally show ?thesis by (simp only: multiTone_spec_def)
  qed
  have "0 \<le> r" using r by simp
  from createMultiTone_finite [OF d this prod, of "map Num fs" "map Num as" now]
  show ?thesis by (simp only: length_map body)
qed

section \<open>The claims\<close>

subsection \<open>C1: the lengths of the spectrum\<close>

text \<open>
  Claim C1 says that for every \<open>fftSize = F\<close> the sequences \<^verbatim>\<open>frequencies\<close> and
  \<^verbatim>\<open>magnitudesDb\<close> of the spectrum both have the length \<open>F/2\<close>. For an even \<open>F\<close> they do
  (lemma \<open>processSignal_even_fftSize\<close>: both lengths are \<open>F/2\<close>, \<open>frequencies[k] = k *
  sampleRate / F\<close>, strictly increasing from 0). For an odd \<open>F\<close> the two sequences differ in
  length (lemma \<open>processSignal_lengths\<close>): \<^verbatim>\<open>new Float32Array(F / 2)\<close> truncates to
  \<open>(F-1)/2\<close> frequencies, while the loop \<^verbatim>\<open>k < N / 2\<close> of \<^verbatim>\<open>computeFFT\<close> pushes
  \<open>(F+1)/2\<close> bins. The theorem runs \<^verbatim>\<open>processSignal\<close> with \<open>fftSize = 3\<close> on a silent
  signal: one frequency, two magnitudes.
\<close>

theorem odd_fftSize_misaligns_bins:
  "processSignal \<lparr>config = \<lparr>fftSize = Num 3, windowType = ''rectangular'', averagingCount = Num 1\<rparr>\<rparr>
       (Num 0)
       \<lparr>samples = [], sampleRate = Num 44100, timestamp = Num 0, duration = Num 0\<rparr> =
     Returns \<lparr>frequencies = [Num 0], magnitudes = [Num (- 200), Num (- 200)], timestamp = Num 0,
              binWidth = Num 14700\<rparr>"
proof -
  let ?eng = "\<lparr>config = \<lparr>fftSize = Num 3, windowType = ''rectangular'', averagingCount = Num 1\<rparr>\<rparr>"
  let ?sig = "\<lparr>samples = [], sampleRate = Num 44100, timestamp = Num 0, duration = Num 0\<rparr>"
  let ?ws = "windowed_chunk (windowType (config ?eng)) 3 []"
  let ?db = "convertToDecibels (computeMagnitudes (computeFFT (map Num ?ws)))"
  have size: "fftSize (config ?eng) = Num (real 3)" by simp
  have known: "windowType (config ?eng) = ''rectangular'' \<or> windowType (config ?eng) = ''hanning'' \<or>
                windowType (config ?eng) = ''hamming''" by simp
  have one: "3 \<noteq> (1::nat) \<or> windowType (config ?eng) = ''rectangular''" by simp
  have finite: "samples ?sig = map Num []" by simp
  have range: "\<forall>c \<in> set ([] :: real list). \<bar>c\<bar> < f32_threshold" by simp
  have zero: "\<forall>c \<in> set ?ws. c = 0" by (rule windowed_chunk_zero) simp
  have run: "processSignal ?eng (Num 0) ?sig =
     Returns \<lparr>frequencies =
                map (\<lambda>i. fround (num_div (num_mul (Num (real i)) (sampleRate ?sig)) (Num (real 3))))
                    [0..<3 div 2],
              magnitudes = ?db, timestamp = Num 0,
              binWidth = num_div (sampleRate ?sig) (Num (real 3))\<rparr>"
    by (rule processSignal_finite [OF size known one finite range])
  have lw: "length ?ws = 3" by (simp add: windowed_chunk_def)
  then have lf: "length (computeFFT (map Num ?ws)) = 2" by (simp add: length_computeFFT)
  then have len: "length ?db = 2" by simp
  have "(0::real) < f32_threshold" by (simp add: f32_threshold_def)
  then have val: "?db ! k = Num (- 200)" if "k < 2" for k
    using that lf decibel_values [of k ?ws] dft_zero [OF zero, of k] by (simp only: if_True)
  have v0: "?db ! 0 = Num (- 200)" by (rule val) simp
  have v1: "?db ! 1 = Num (- 200)" by (rule val) simp
  from list_length_2 [OF len] have db: "?db = [Num (- 200), Num (- 200)]" by (simp only: v0 v1)
  have fr: "map (\<lambda>i. fround (num_div (num_mul (Num (real i)) (sampleRate ?sig)) (Num (real 3))))
                    [0..<3 div 2] = [Num 0]"
    by (simp add: upt_rec)
  have bw: "num_div (sampleRate ?sig) (Num (real 3)) = Num 14700" by simp
  show ?thesis by (simp only: run db fr bw)
qed

subsection \<open>C2: the transform, the magnitudes and the decibels\<close>

text \<open>
  Claim C2 says that for every windowed chunk the transform computes
  \<open>magnitude[k] = sqrt(real[k]\<^sup>2 + imag[k]\<^sup>2)\<close> and
  \<open>dB[k] = 20 log10(max(magnitude[k], 1e-10))\<close>. The magnitudes are stored in a
  \<^verbatim>\<open>Float32Array\<close>. For the chunk of the two samples \<open>2^127\<close> and bin 0 the sums are
  \<open>real[0] = 2^128\<close> and \<open>imag[0] = 0\<close>, whose \<open>sqrt(real[0]\<^sup>2 + imag[0]\<^sup>2) = 2^128\<close> is outside
  the binary32 range: the stored magnitude is \<^verbatim>\<open>Infinity\<close>, and so is the decibel value,
  where the formula of the claim gives \<open>20 log10(2^128)\<close>.
\<close>

theorem magnitude_outside_binary32:
  "real 0 < real (length [2 ^ 127, 2 ^ 127 :: real]) / 2 \<and>
   dft_magnitude [2 ^ 127, 2 ^ 127] 0 = 2 ^ 128 \<and>
   computeMagnitudes (computeFFT (map Num [2 ^ 127, 2 ^ 127])) ! 0 = PosInf \<and>
   convertToDecibels (computeMagnitudes (computeFFT (map Num [2 ^ 127, 2 ^ 127]))) ! 0 = PosInf \<and>
   PosInf \<noteq> Num (dft_magnitude [2 ^ 127, 2 ^ 127] 0) \<and>
   PosInf \<noteq> Num (dft_dB [2 ^ 127, 2 ^ 127] 0)"
proof -
  let ?x = "[2 ^ 127, 2 ^ 127 :: real]"
  have bin: "real 0 < real (length ?x) / 2" by simp
  have mag: "dft_magnitude ?x 0 = 2 ^ 128" by (rule dft_magnitude_two_samples)
  have k: "0 < length (computeFFT (map Num ?x))" by (simp add: length_computeFFT)
  have big: "\<not> dft_magnitude ?x 0 < f32_threshold" unfolding mag by (simp add: f32_threshold_def)
  have "computeMagnitudes (computeFFT (map Num ?x)) ! 0 = fround (Num (dft_magnitude ?x 0))"
    using k by (rule computeMagnitudes_finite)
  also have "\<dots> = PosInf" using big by (simp add: fround_overflow)
  finally have m: "computeMagnitudes (computeFFT (map Num ?x)) ! 0 = PosInf" .
  have d: "convertToDecibels (computeMagnitudes (computeFFT (map Num ?x))) ! 0 = PosInf"
    using big by (simp only: decibel_values [OF k] if_False)
  have ne: "PosInf \<noteq> Num (dft_magnitude ?x 0)" "PosInf \<noteq> Num (dft_dB ?x 0)" by simp_all
  from bin mag m d ne show ?thesis by (simp only: simp_thms)
qed

text \<open>
  Claim C2, amended. For every windowed chunk \<open>x\<close> of \<open>N\<close> finite samples and every bin \<open>k\<close>
  with \<open>k < N/2\<close>, \<^verbatim>\<open>computeFFT\<close> computes \<open>real[k] = \<Sum>\<^sub>n x[n] cos(-2\<pi>kn/N)\<close> and
  \<open>imag[k] = \<Sum>\<^sub>n x[n] sin(-2\<pi>kn/N)\<close>. Where \<open>sqrt(real[k]\<^sup>2 + imag[k]\<^sup>2)\<close> is inside the
  binary32 range (below \<open>2^128 - 2^103\<close>), the stored magnitude is
  \<open>magnitude[k] = sqrt(real[k]\<^sup>2 + imag[k]\<^sup>2)\<close> and the decibel value is
  \<open>dB[k] = 20 log10(max(magnitude[k], 1e-10))\<close> with the floor \<open>1e-10\<close>; otherwise the stored
  magnitude and the decibel value are both \<^verbatim>\<open>+Infinity\<close>.
\<close>

theorem transform_formulas:
  assumes bin: "real k < real (length x) / 2"
  shows "computeFFT (map Num x) ! k =
           \<lparr>real_part = Num (dft_real x k), imag_part = Num (dft_imag x k)\<rparr> \<and>
         computeMagnitudes (computeFFT (map Num x)) ! k =
           (if dft_magnitude x k < f32_threshold then Num (dft_magnitude x k) else PosInf) \<and>
         convertToDecibels (computeMagnitudes (computeFFT (map Num x))) ! k =
           (if dft_magnitude x k < f32_threshold then Num (dft_dB x k) else PosInf)"
proof -
  from bin have "k < nat \<lceil>real (length x) / 2\<rceil>" by linarith
  then have k: "k < length (computeFFT (map Num x))" by (simp add: computeFFT_map)
  have 1: "computeFFT (map Num x) ! k =
           \<lparr>real_part = Num (dft_real x k), imag_part = Num (dft_imag x k)\<rparr>"
    using k by (rule computeFFT_finite)
  have m: "computeMagnitudes (computeFFT (map Num x)) ! k = fround (Num (dft_magnitude x k))"
    using k by (rule computeMagnitudes_finite)
  have 2: "computeMagnitudes (computeFFT (map Num x)) ! k =
           (if dft_magnitude x k < f32_threshold then Num (dft_magnitude x k) else PosInf)"
  proof (cases "dft_magnitude x k < f32_threshold")
    case True
    with dft_magnitude_nonneg [of x k] have "\<bar>dft_magnitude x k\<bar> < f32_threshold" by simp
    then have "fround (Num (dft_magnitude x k)) = Num (dft_magnitude x k)" by (rule fround_in_range)
    with True show ?thesis by (simp only: m if_True)
  next
    case False
    then have "fround (Num (dft_magnitude x k)) = PosInf" by (simp add: fround_overflow)
    with False show ?thesis by (simp only: m if_False)
  qed
  have 3: "convertToDecibels (computeMagnitudes (computeFFT (map Num x))) ! k =
           (if dft_magnitude x k < f32_threshold then Num (dft_dB x k) else PosInf)"
    using k by (rule decibel_values)
  from 1 2 3 show ?thesis by (simp only: simp_thms)
qed

theorem transform_formulas_witness:
  "real 0 < real (length [1, 0 :: real]) / 2 \<and>
   computeFFT [Num 1, Num 0] ! 0 = \<lparr>real_part = Num 1, imag_part = Num 0\<rparr> \<and>
   computeMagnitudes (computeFFT [Num 1, Num 0]) ! 0 = Num 1 \<and>
   convertToDecibels (computeMagnitudes (computeFFT [Num 1, Num 0])) ! 0 = Num 0"
proof -
  have bin: "real 0 < real (length [1, 0 :: real]) / 2" by simp
  have re: "dft_real [1, 0] 0 = 1" and im: "dft_imag [1, 0] 0 = 0"
    by (simp_all add: dft_real_def dft_imag_def lessThan_Suc numeral_2_eq_2)
  then have mag: "dft_magnitude [1, 0] 0 = 1" by (simp add: dft_magnitude_def)
  then have db: "dft_dB [1, 0] 0 = 0" by (simp add: dft_dB_def)
  have small: "dft_magnitude [1, 0] 0 < f32_threshold" by (simp add: mag f32_threshold_def)
  from transform_formulas [OF bin] small bin show ?thesis
    by (simp add: re im mag db)
qed

subsection \<open>C3: finiteness of the decibel values\<close>

text \<open>
  Claim C3 says that every value of \<^verbatim>\<open>magnitudesDb\<close> is finite for every input signal.
  The floor \<open>1e-10\<close> only keeps a zero magnitude away from the logarithm. Two finite
  samples of \<open>2^127\<close> under the rectangular window with \<open>fftSize = 2\<close> sum to the
  magnitude \<open>2^128\<close>, which the store into the \<^verbatim>\<open>Float32Array\<close> of magnitudes turns into
  \<^verbatim>\<open>Infinity\<close>, and the decibel value is \<^verbatim>\<open>Infinity\<close>. A zero-length signal with
  \<open>fftSize = 1\<close> under the hanning window meets the \<^verbatim>\<open>NaN\<close> coefficient of that window,
  and \<^verbatim>\<open>Math.max(NaN, 1e-10)\<close> is \<^verbatim>\<open>NaN\<close>.
\<close>

theorem decibels_not_always_finite:
  "processSignal \<lparr>config = \<lparr>fftSize = Num 2, windowType = ''rectangular'', averagingCount = Num 1\<rparr>\<rparr>
       (Num 0)
       \<lparr>samples = [Num (2 ^ 127), Num (2 ^ 127)], sampleRate = Num 44100, timestamp = Num 0,
          duration = Num 1\<rparr> =
     Returns \<lparr>frequencies = [Num 0], magnitudes = [PosInf], timestamp = Num 0,
              binWidth = Num 22050\<rparr> \<and>
   processSignal \<lparr>config = \<lparr>fftSize = Num 1, windowType = ''hanning'', averagingCount = Num 1\<rparr>\<rparr>
       (Num 0)
       \<lparr>samples = [], sampleRate = Num 44100, timestamp = Num 0, duration = Num 0\<rparr> =
     Returns \<lparr>frequencies = [], magnitudes = [NaN], timestamp = Num 0, binWidth = Num 44100\<rparr> \<and>
   \<not> is_finite PosInf \<and> \<not> is_finite NaN"
  by (simp only: overflow_run nan_run is_finite.simps simp_thms)

text \<open>
  Claim C3, amended. For every input signal whose samples are finite binary32 values, and
  every engine whose \<open>fftSize\<close> is a natural number \<open>F\<close> and whose window kind is one of the
  three, with \<open>F \<noteq> 1\<close> unless the window is rectangular, \<^verbatim>\<open>processSignal\<close> returns a
  spectrum in which every value of \<^verbatim>\<open>magnitudesDb\<close> is either the finite number
  \<open>20 log10(max(magnitude, 1e-10))\<close>, which is at least \<open>-200\<close>, or \<^verbatim>\<open>+Infinity\<close>, the
  latter exactly when the magnitude of the bin is outside the binary32 range. No value is
  \<^verbatim>\<open>NaN\<close> or \<^verbatim>\<open>-Infinity\<close>. For a zero-length or all-zero signal every value is
  \<open>-200\<close>.
\<close>

theorem decibels_finite_or_overflow:
  assumes size: "fftSize (config this) = Num (real F)"
    and known: "windowType (config this) = ''rectangular'' \<or> windowType (config this) = ''hanning'' \<or>
                windowType (config this) = ''hamming''"
    and one: "F \<noteq> 1 \<or> windowType (config this) = ''rectangular''"
    and finite: "samples signal = map Num cs"
    and range: "\<forall>c \<in> set cs. \<bar>c\<bar> < f32_threshold"
  shows "\<exists>spectrum. processSignal this now signal = Returns spectrum \<and>
           (\<forall>k < length (magnitudes spectrum).
              magnitudes spectrum ! k =
                (if dft_magnitude (windowed_chunk (windowType (config this)) F cs) k < f32_threshold
                 then Num (dft_dB (windowed_chunk (windowType (config this)) F cs) k)
                 else PosInf)) \<and>
           (\<forall>k < length (magnitudes spectrum).
              magnitudes spectrum ! k = PosInf \<or>
              (\<exists>r. magnitudes spectrum ! k = Num r \<and> - 200 \<le> r)) \<and>
           ((\<forall>c \<in> set cs. c = 0) \<longrightarrow>
              (\<forall>k < length (magnitudes spectrum). magnitudes spectrum ! k = Num (- 200)))"
proof -
  let ?ws = "windowed_chunk (windowType (config this)) F cs"
  let ?db = "convertToDecibels (computeMagnitudes (computeFFT (map Num ?ws)))"
  let ?sp = "\<lparr>frequencies =
                map (\<lambda>i. fround (num_div (num_mul (Num (real i)) (sampleRate signal)) (Num (real F))))
                    [0..<F div 2],
              magnitudes = ?db, timestamp = now,
              binWidth = num_div (sampleRate signal) (Num (real F))\<rparr>"
  have run: "processSignal this now signal = Returns ?sp"
    using size known one finite range by (rule processSignal_finite)
  have val: "?db ! k = (if dft_magnitude ?ws k < f32_threshold then Num (dft_dB ?ws k) else PosInf)"
    if "k < length ?db" for k
  proof -
    from that have "k < length (computeFFT (map Num ?ws))" by simp
    then show ?thesis by (rule decibel_values)
  qed
  have low: "?db ! k = PosInf \<or> (\<exists>r. ?db ! k = Num r \<and> - 200 \<le> r)" if "k < length ?db" for k
  proof (cases "dft_magnitude ?ws k < f32_threshold")
    case True
    with val [OF that] have "?db ! k = Num (dft_dB ?ws k)" by (simp only: if_True)
    moreover have "- 200 \<le> dft_dB ?ws k" unfolding dft_dB_def by (rule dB_lower)
    ultimately show ?thesis by blast
  next
    case False
    with val [OF that] show ?thesis by (simp only: if_False simp_thms)
  qed
  have zero: "?db ! k = Num (- 200)" if z: "\<forall>c \<in> set cs. c = 0" and k: "k < length ?db" for k
  proof -
    from z have w: "\<forall>c \<in> set ?ws. c = 0" by (rule windowed_chunk_zero)
    have "(0::real) < f32_threshold" by (simp add: f32_threshold_def)
    with val [OF k] dft_zero [OF w, of k] show ?thesis by (simp only: if_True)
  qed
  have sel: "magnitudes ?sp = ?db" by simp
  show ?thesis
  proof (intro exI [of _ ?sp] conjI)
    show "processSignal this now signal = Returns ?sp" by (rule run)
    show "\<forall>k < length (magnitudes ?sp). magnitudes ?sp ! k =
                (if dft_magnitude ?ws k < f32_threshold then Num (dft_dB ?ws k) else PosInf)"
      unfolding sel using val by blast
    show "\<forall>k < length (magnitudes ?sp). magnitudes ?sp ! k = PosInf \<or>
              (\<exists>r. magnitudes ?sp ! k = Num r \<and> - 200 \<le> r)"
      unfolding sel using low by blast
    show "(\<forall>c \<in> set cs. c = 0) \<longrightarrow>
              (\<forall>k < length (magnitudes ?sp). magnitudes ?sp ! k = Num (- 200))"
      unfolding sel using zero by blast
  qed
qed

theorem decibels_finite_or_overflow_witness:
  "\<exists>spectrum.
     processSignal \<lparr>config = \<lparr>fftSize = Num 4, windowType = ''hanning'', averagingCount = Num 1\<rparr>\<rparr>
       (Num 0) \<lparr>samples = [], sampleRate = Num 44100, timestamp = Num 0, duration = Num 0\<rparr> =
     Returns spectrum \<and>
     magnitudes spectrum = [Num (- 200), Num (- 200)]"
proof -
  let ?eng = "\<lparr>config = \<lparr>fftSize = Num 4, windowType = ''hanning'', averagingCount = Num 1\<rparr>\<rparr>"
  let ?sig = "\<lparr>samples = [], sampleRate = Num 44100, timestamp = Num 0, duration = Num 0\<rparr>"
  have size: "fftSize (config ?eng) = Num (real 4)" by simp
  have known: "windowType (config ?eng) = ''rectangular'' \<or> windowType (config ?eng) = ''hanning'' \<or>
                windowType (config ?eng) = ''hamming''" by simp
  have one: "4 \<noteq> (1::nat) \<or> windowType (config ?eng) = ''rectangular''" by simp
  have finite: "samples ?sig = map Num []" by simp
  have range: "\<forall>c \<in> set ([] :: real list). \<bar>c\<bar> < f32_threshold" by simp
  have zero: "\<forall>c \<in> set ([] :: real list). c = 0" by simp
  from decibels_finite_or_overflow [OF size known one finite range, of "Num 0"] zero
  obtain spectrum where run: "processSignal ?eng (Num 0) ?sig = Returns spectrum"
    and val: "\<forall>k < length (magnitudes spectrum). magnitudes spectrum ! k = Num (- 200)"
    by blast
  from processSignal_lengths [OF size known, of "Num 0" ?sig] run
  have len: "length (magnitudes spectrum) = 2" by auto
  from val len have "magnitudes spectrum ! 0 = Num (- 200)" "magnitudes spectrum ! 1 = Num (- 200)"
    by simp_all
  with list_length_2 [OF len] have "magnitudes spectrum = [Num (- 200), Num (- 200)]"
    by (simp only:)
  with run show ?thesis by blast
qed

subsection \<open>C4: unrecognised window kinds\<close>

text \<open>
  Claim C4. For every chunk and every window kind that is none of \<^verbatim>\<open>rectangular\<close>,
  \<^verbatim>\<open>hanning\<close> and \<^verbatim>\<open>hamming\<close>, \<^verbatim>\<open>applyWindow\<close> throws the error
  \<^verbatim>\<open>Unknown window type: <kind>\<close>: it returns no array and does not fall back to the
  rectangular window. \<^verbatim>\<open>processSignal\<close> of an engine that is configured with such a kind,
  and with an \<open>fftSize\<close> that is a valid array length, throws this same error to its
  caller.
\<close>

theorem unknown_window_kind:
  assumes kind: "windowType (config this) \<notin> {''rectangular'', ''hanning'', ''hamming''}"
    and size: "ToIndex (fftSize (config this)) = Returns F"
  shows "applyWindow chunk (windowType (config this)) =
           Throws (Error (''Unknown window type: '' @ windowType (config this))) \<and>
         processSignal this now signal =
           Throws (Error (''Unknown window type: '' @ windowType (config this)))"
proof -
  from kind have k: "windowType (config this) \<noteq> ''rectangular''"
    "windowType (config this) \<noteq> ''hanning''" "windowType (config this) \<noteq> ''hamming''"
    by simp_all
  have w: "\<And>c. applyWindow c (windowType (config this)) =
           Throws (Error (''Unknown window type: '' @ windowType (config this)))"
    using k by (rule applyWindow_unknown)
  have "processSignal this now signal =
           Throws (Error (''Unknown window type: '' @ windowType (config this)))"
    by (simp only: processSignal_unfold ToIndex_alloc_filled [OF size] w and_then.simps)
  with w show ?thesis by (simp only: simp_thms)
qed

theorem unknown_window_kind_witness:
  "applyWindow [Num 1, Num 2] ''blackman'' = Throws (Error ''Unknown window type: blackman'') \<and>
   processSignal \<lparr>config = \<lparr>fftSize = Num 4, windowType = ''blackman'', averagingCount = Num 1\<rparr>\<rparr>
       (Num 0) \<lparr>samples = [Num 1, Num 2], sampleRate = Num 44100, timestamp = Num 0, duration = Num 1\<rparr> =
     Throws (Error ''Unknown window type: blackman'')"
proof -
  let ?eng = "\<lparr>config = \<lparr>fftSize = Num 4, windowType = ''blackman'', averagingCount = Num 1\<rparr>\<rparr>"
  have kind: "windowType (config ?eng) \<notin> {''rectangular'', ''hanning'', ''hamming''}" by simp
  have size: "ToIndex (fftSize (config ?eng)) = Returns 4" by (simp add: trunc_def)
  show ?thesis
    using unknown_window_kind [OF kind size, of "[Num 1, Num 2]" "Num 0"
        "\<lparr>samples = [Num 1, Num 2], sampleRate = Num 44100, timestamp = Num 0, duration = Num 1\<rparr>"]
    by simp
qed

subsection \<open>C5: validation of fftSize\<close>

text \<open>
  Claim C5 says that constructing the engine with a non-positive or non-integer
  \<open>fftSize\<close> fails with an \<^verbatim>\<open>InvalidConfig\<close> error. The constructor only stores the
  configuration: with an \<open>fftSize\<close> of \<open>-1\<close>, of \<open>0\<close> and of \<open>2.5\<close> it returns an engine.
\<close>

theorem constructor_accepts_invalid_fftSize:
  "new_FFTProcessor \<lparr>fftSize = Num (- 1), windowType = ''hanning'', averagingCount = Num 1\<rparr> =
     Returns \<lparr>config = \<lparr>fftSize = Num (- 1), windowType = ''hanning'', averagingCount = Num 1\<rparr>\<rparr> \<and>
   new_FFTProcessor \<lparr>fftSize = Num 0, windowType = ''hanning'', averagingCount = Num 1\<rparr> =
     Returns \<lparr>config = \<lparr>fftSize = Num 0, windowType = ''hanning'', averagingCount = Num 1\<rparr>\<rparr> \<and>
   new_FFTProcessor \<lparr>fftSize = Num 2.5, windowType = ''hanning'', averagingCount = Num 1\<rparr> =
     Returns \<lparr>config = \<lparr>fftSize = Num 2.5, windowType = ''hanning'', averagingCount = Num 1\<rparr>\<rparr>"
  by (simp add: new_FFTProcessor_def)

text \<open>
  Claim C5, amended. Constructing the engine never fails: for every \<^verbatim>\<open>DSPConfig\<close> the
  constructor returns an engine that holds this configuration, and no \<^verbatim>\<open>InvalidConfig\<close>
  error exists. An \<open>fftSize\<close> of at most \<open>-1\<close> is rejected only when \<^verbatim>\<open>processSignal\<close>
  is called, by the \<^verbatim>\<open>RangeError\<close> of the typed-array allocation. An \<open>fftSize\<close> above
  \<open>-1\<close>, zero and the non-integers included, is not rejected at all: with one of the
  three window kinds \<^verbatim>\<open>processSignal\<close> returns a spectrum.
\<close>

theorem fftSize_checked_only_by_allocation:
  "new_FFTProcessor cfg = Returns \<lparr>config = cfg\<rparr> \<and>
   (fftSize cfg = Num x \<and> x \<le> - 1 \<longrightarrow>
        processSignal \<lparr>config = cfg\<rparr> now signal = Throws RangeError) \<and>
   (fftSize cfg = Num x \<and> - 1 < x \<and>
        windowType cfg \<in> {''rectangular'', ''hanning'', ''hamming''} \<longrightarrow>
        (\<exists>spectrum. processSignal \<lparr>config = cfg\<rparr> now signal = Returns spectrum))"
proof (intro conjI impI)
  show "new_FFTProcessor cfg = Returns \<lparr>config = cfg\<rparr>" by (simp add: new_FFTProcessor_def)
next
  assume "fftSize cfg = Num x \<and> x \<le> - 1"
  then show "processSignal \<lparr>config = cfg\<rparr> now signal = Throws RangeError"
    by (simp add: processSignal_unfold alloc_filled_Throws)
next
  assume a: "fftSize cfg = Num x \<and> - 1 < x \<and>
        windowType cfg \<in> {''rectangular'', ''hanning'', ''hamming''}"
  then have k: "windowType cfg = ''rectangular'' \<or> windowType cfg = ''hanning'' \<or> windowType cfg = ''hamming''"
    by simp
  from a have h: "- 1 < x / 2" by simp
  from a have f: "fftSize cfg = Num x" "- 1 < x" by simp_all
  have d: "num_div (Num x) (Num 2) = Num (x / 2)" by simp
  show "\<exists>spectrum. processSignal \<lparr>config = cfg\<rparr> now signal = Returns spectrum"
    unfolding processSignal_unfold FFTProcessor.simps f(1) d alloc_filled_Num [OF f(2)]
      alloc_filled_Num [OF h] and_then.simps applyWindow_known [OF k]
    by blast
qed

theorem fftSize_checked_only_by_allocation_witness:
  "processSignal \<lparr>config = \<lparr>fftSize = Num (- 1), windowType = ''hanning'', averagingCount = Num 1\<rparr>\<rparr>
       (Num 0) \<lparr>samples = [Num 1], sampleRate = Num 44100, timestamp = Num 0, duration = Num 1\<rparr> =
     Throws RangeError \<and>
   (\<exists>spectrum.
      processSignal \<lparr>config = \<lparr>fftSize = Num 2.5, windowType = ''hanning'', averagingCount = Num 1\<rparr>\<rparr>
        (Num 0) \<lparr>samples = [Num 1], sampleRate = Num 44100, timestamp = Num 0, duration = Num 1\<rparr> =
      Returns spectrum) \<and>
   (\<exists>spectrum.
      processSignal \<lparr>config = \<lparr>fftSize = Num 0, windowType = ''hanning'', averagingCount = Num 1\<rparr>\<rparr>
        (Num 0) \<lparr>samples = [Num 1], sampleRate = Num 44100, timestamp = Num 0, duration = Num 1\<rparr> =
      Returns spectrum)"
proof -
  let ?sig = "\<lparr>samples = [Num 1], sampleRate = Num 44100, timestamp = Num 0, duration = Num 1\<rparr>"
  have 1: "processSignal \<lparr>config = \<lparr>fftSize = Num (- 1), windowType = ''hanning'', averagingCount = Num 1\<rparr>\<rparr>
       (Num 0) ?sig = Throws RangeError"
    using fftSize_checked_only_by_allocation
      [of "\<lparr>fftSize = Num (- 1), windowType = ''hanning'', averagingCount = Num 1\<rparr>" "- 1" "Num 0" ?sig]
    by simp
  have 2: "\<exists>spectrum.
      processSignal \<lparr>config = \<lparr>fftSize = Num 2.5, windowType = ''hanning'', averagingCount = Num 1\<rparr>\<rparr>
        (Num 0) ?sig = Returns spectrum"
    using fftSize_checked_only_by_allocation
      [of "\<lparr>fftSize = Num 2.5, windowType = ''hanning'', averagingCount = Num 1\<rparr>" "5 / 2" "Num 0" ?sig]
    by simp
  have 3: "\<exists>spectrum.
      processSignal \<lparr>config = \<lparr>fftSize = Num 0, windowType = ''hanning'', averagingCount = Num 1\<rparr>\<rparr>
        (Num 0) ?sig = Returns spectrum"
    using fftSize_checked_only_by_allocation
      [of "\<lparr>fftSize = Num 0, windowType = ''hanning'', averagingCount = Num 1\<rparr>" "0" "Num 0" ?sig]
    by simp
  from 1 2 3 show ?thesis by (simp only: simp_thms)
qed

subsection \<open>C6: windows of length one\<close>

text \<open>
  Claim C6 says that for the window length \<open>N = 1\<close> the hanning and hamming operations
  produce a defined finite coefficient. They do not: \<^verbatim>\<open>2 * Math.PI * 0 / (1 - 1)\<close> is
  \<^verbatim>\<open>0/0 = NaN\<close>, its cosine is \<^verbatim>\<open>NaN\<close>, and the single coefficient of either window
  is \<^verbatim>\<open>NaN\<close>.
\<close>

theorem window_length_one_counterexample:
  "hanning (Num 1) = Returns [NaN] \<and> hamming (Num 1) = Returns [NaN] \<and> \<not> is_finite NaN"
  using hanning_nat [of 1] hamming_nat [of 1] by (simp add: num_sub_def Math_PI_def)

text \<open>
  Claim C6, amended. For the window length \<open>N = 1\<close> the hanning and hamming operations
  each return the single coefficient \<^verbatim>\<open>NaN\<close>. For every other length \<open>N\<close> they return
  the \<open>N\<close> finite coefficients \<open>0.5 * (1 - cos (2\<pi>i/(N-1)))\<close> and
  \<open>0.54 - 0.46 * cos (2\<pi>i/(N-1))\<close>.
\<close>

theorem window_coefficients:
  "hanning (Num (real N)) =
     Returns (if N = 1 then [NaN]
              else map (\<lambda>i. Num (0.5 * (1 - cos (2 * pi * real i / (real N - 1))))) [0..<N]) \<and>
   hamming (Num (real N)) =
     Returns (if N = 1 then [NaN]
              else map (\<lambda>i. Num (0.54 - 0.46 * cos (2 * pi * real i / (real N - 1)))) [0..<N])"
proof (cases "N = 1")
  case True
  then show ?thesis
    using hanning_nat [of 1] hamming_nat [of 1] by (simp add: num_sub_def Math_PI_def)
next
  case False
  then show ?thesis
    by (simp only: hanning_nat hamming_nat hanning_coeff hamming_coeff if_False simp_thms)
qed

theorem window_coefficients_witness:
  "hanning (Num 3) = Returns [Num 0, Num 1, Num 0] \<and>
   hamming (Num 3) = Returns [Num (2 / 25), Num 1, Num (2 / 25)]"
  using window_coefficients [of 3] by (simp add: upt_rec numeral_3_eq_3)

subsection \<open>C7: chunk extraction\<close>

text \<open>
  Claim C7. For every input signal and every \<open>fftSize\<close> that is a natural number \<open>F\<close>,
  \<^verbatim>\<open>extractChunk\<close> returns (it never throws, however short the signal is) exactly \<open>F\<close>
  values: the first \<open>F\<close> samples of the signal, followed by zeros on the right when the
  signal has fewer than \<open>F\<close> samples. Every element of the chunk is a sample at an index
  inside the signal or the padding zero, so no read past the end of \<^verbatim>\<open>signal.samples\<close>
  (which would show as \<^verbatim>\<open>NaN\<close>) contributes. The samples are elements of a
  \<^verbatim>\<open>Float32Array\<close>, hence binary32 values.
\<close>

theorem extractChunk_takes_and_pads:
  fixes samples :: Float32Array
  assumes "list_all is_f32 samples"
  shows "\<exists>chunk. extractChunk samples (Num (real F)) = Returns chunk \<and>
           chunk = take F samples @ replicate (F - length samples) (Num 0) \<and>
           length chunk = F \<and>
           (\<forall>i < F. chunk ! i = (if i < length samples then samples ! i else Num 0))"
proof -
  let ?chunk = "take F samples @ replicate (F - length samples) (Num 0)"
  have run: "extractChunk samples (Num (real F)) = Returns ?chunk"
    using assms by (rule extractChunk_take_pad)
  have len: "length ?chunk = F" by simp
  have nth: "\<forall>i < F. ?chunk ! i = (if i < length samples then samples ! i else Num 0)"
    by (simp add: nth_append)
  from run len nth show ?thesis by blast
qed

theorem extractChunk_takes_and_pads_witness:
  "list_all is_f32 [Num 1, Num 2] \<and>
   extractChunk [Num 1, Num 2] (Num 3) = Returns [Num 1, Num 2, Num 0] \<and>
   extractChunk [Num 1, Num 2] (Num 1) = Returns [Num 1]"
proof -
  have h: "list_all is_f32 [Num 1, Num 2]"
    by (simp add: is_f32_def fround.simps(1) f32_threshold_def)
  from extractChunk_takes_and_pads [OF h, of 3]
  have 3: "extractChunk [Num 1, Num 2] (Num 3) = Returns [Num 1, Num 2, Num 0]"
    by (auto simp: numeral_3_eq_3)
  from extractChunk_takes_and_pads [OF h, of 1]
  have 1: "extractChunk [Num 1, Num 2] (Num 1) = Returns [Num 1]"
    by auto
  from h 3 1 show ?thesis by (simp only: simp_thms)
qed

subsection \<open>C8: the chirp\<close>

text \<open>
  Claim C8. For every \<open>startFreq\<close>, \<open>endFreq\<close>, \<open>duration\<close> and \<open>sampleRate\<close>, every
  sample \<open>i\<close> of the signal that \<^verbatim>\<open>createChirp\<close> returns is
  \<open>sin (2\<pi> \<cdot> instFreq(t) \<cdot> t)\<close> with \<open>t = i / sampleRate\<close> and
  \<open>instFreq(t) = startFreq + (endFreq - startFreq) * (t / duration)\<close>. For finite
  frequencies and a finite non-zero duration the instantaneous frequency is \<open>startFreq\<close>
  at \<open>t = 0\<close> and \<open>endFreq\<close> at \<open>t = duration\<close>; for
  \<^verbatim>\<open>createChirp(100, 400, 1.0, 44100)\<close> these are 100 and 400.
\<close>

theorem createChirp_formula:
  fixes duration sampleRate :: number
  assumes "createChirp startFreq endFreq duration sampleRate now = Returns sig"
  shows "(\<forall>i < length (samples sig).
            samples sig ! i =
              Math_sin (num_mul (num_mul (num_mul (Num 2) Math_PI)
                                   (instantFreq startFreq endFreq duration
                                      (num_div (Num (real i)) sampleRate)))
                                (num_div (Num (real i)) sampleRate))) \<and>
         (\<forall>s e d. d \<noteq> 0 \<longrightarrow>
            instantFreq (Num s) (Num e) (Num d) (Num 0) = Num s \<and>
            instantFreq (Num s) (Num e) (Num d) (Num d) = Num e) \<and>
         instantFreq (Num 100) (Num 400) (Num 1) (Num 0) = Num 100 \<and>
         instantFreq (Num 100) (Num 400) (Num 1) (Num 1) = Num 400"
proof -
  let ?f = "\<lambda>i. Math_sin (num_mul (num_mul (num_mul (Num 2) Math_PI)
                          (instantFreq startFreq endFreq duration (num_div (Num (real i)) sampleRate)))
                          (num_div (Num (real i)) sampleRate))"
  from assms obtain a where a: "alloc_filled (Math_floor (binary64_mul duration sampleRate)) ?f = Returns a"
    and sig: "Returns \<lparr>samples = a, sampleRate = sampleRate, timestamp = now, duration = duration\<rparr> = Returns sig"
    unfolding createChirp_alloc and_then_Returns_iff by blast
  from sig have s: "samples sig = a" by auto
  have 1: "\<forall>i < length (samples sig). samples sig ! i = ?f i"
  proof (intro allI impI)
    fix i assume "i < length (samples sig)"
    then have "i < length a" by (simp only: s)
    with a have "a ! i = fround (?f i)" by (rule alloc_filled_nth)
    then show "samples sig ! i = ?f i" by (simp only: s fround_sin)
  qed
  have 2: "\<forall>s e d. d \<noteq> 0 \<longrightarrow>
            instantFreq (Num s) (Num e) (Num d) (Num 0) = Num s \<and>
            instantFreq (Num s) (Num e) (Num d) (Num d) = Num e"
    by (simp add: instantFreq_def num_sub_def)
  have 3: "instantFreq (Num 100) (Num 400) (Num 1) (Num 0) = Num 100 \<and>
         instantFreq (Num 100) (Num 400) (Num 1) (Num 1) = Num 400"
    by (simp add: instantFreq_def num_sub_def)
  from 1 2 3 show ?thesis by (simp only: simp_thms)
qed

theorem createChirp_formula_witness:
  "\<exists>sig. createChirp (Num 100) (Num 400) (Num 1) (Num 4) (Num 0) = Returns sig \<and>
         length (samples sig) = 4 \<and>
         samples sig ! 1 = Num (sin (2 * pi * 175 * (1 / 4)))"
proof -
  let ?sig = "\<lparr>samples = map (\<lambda>i. Math_sin (num_mul (num_mul (num_mul (Num 2) Math_PI)
                          (instantFreq (Num 100) (Num 400) (Num 1) (num_div (Num (real i)) (Num 4))))
                          (num_div (Num (real i)) (Num 4)))) [0..<4],
              sampleRate = Num 4, timestamp = Num 0, duration = Num 1\<rparr>"
  have h: "createChirp (Num 100) (Num 400) (Num 1) (Num 4) (Num 0) = Returns ?sig"
    by (rule createChirp_4)
  have len: "length (samples ?sig) = 4" by simp
  have "\<forall>i < length (samples ?sig). samples ?sig ! i =
          Math_sin (num_mul (num_mul (num_mul (Num 2) Math_PI)
                               (instantFreq (Num 100) (Num 400) (Num 1)
                                  (num_div (Num (real i)) (Num 4))))
                            (num_div (Num (real i)) (Num 4)))"
    using createChirp_formula [OF h] by (rule conjunct1)
  then have "1 < length (samples ?sig) \<longrightarrow> samples ?sig ! 1 =
          Math_sin (num_mul (num_mul (num_mul (Num 2) Math_PI)
                               (instantFreq (Num 100) (Num 400) (Num 1)
                                  (num_div (Num (real 1)) (Num 4))))
                            (num_div (Num (real 1)) (Num 4)))"
    by (rule spec)
  with len have "samples ?sig ! 1 =
          Math_sin (num_mul (num_mul (num_mul (Num 2) Math_PI)
                               (instantFreq (Num 100) (Num 400) (Num 1)
                                  (num_div (Num (real 1)) (Num 4))))
                            (num_div (Num (real 1)) (Num 4)))"
    by (simp only: one_less_numeral_iff semiring_norm simp_thms)
  also have "\<dots> = Num (sin (2 * pi * 175 * (1 / 4)))"
    by (simp add: instantFreq_def num_sub_def Math_PI_def)
  finally have "samples ?sig ! 1 = Num (sin (2 * pi * 175 * (1 / 4)))" .
  with h len show ?thesis by blast
qed

subsection \<open>C9: the multi-tone signal\<close>

text \<open>
  Claim C9 says that each sample of \<^verbatim>\<open>createMultiTone\<close> is the sum over the components of
  \<open>amplitude[j] * sin(2\<pi> \<cdot> frequency[j] \<cdot> t)\<close>, a missing amplitude being 1. The code reads
  the amplitude as \<^verbatim>\<open>amplitudes[freqIndex] || 1\<close>, which replaces a missing amplitude by 1
  and also every amplitude that is \<open>0\<close> (or \<^verbatim>\<open>NaN\<close>). Where every amplitude supplied is
  non-zero the code computes the sum of the claim (lemma \<open>createMultiTone_matches_spec\<close>).
  The theorem runs \<^verbatim>\<open>createMultiTone([1], [0], 0.5, 4)\<close>: the sample at \<open>t = 1/4\<close> is
  \<open>1 * sin(\<pi>/2) = 1\<close>, where the sum of the claim is \<open>0 * sin(\<pi>/2) = 0\<close>.
\<close>

theorem zero_amplitude_replaced_by_one:
  "createMultiTone [Num 1] [Num 0] (Num (1 / 2)) (Num 4) (Num 0) =
     Returns \<lparr>samples = [Num 0, Num 1], sampleRate = Num 4, timestamp = Num 0,
              duration = Num (1 / 2)\<rparr> \<and>
   multiTone_spec [1] [0] (1 / 4) = 0"
proof -
  have a: "(0::real) \<le> 1 / 2" "(0::real) \<le> 4" by simp_all
  have prod: "binary64_mul (Num (1 / 2)) (Num 4) = Num 2" by (simp add: round64_2)
  have n: "nat \<lfloor>2::real\<rfloor> = 2" by simp
  have "createMultiTone [Num 1] [Num 0] (Num (1 / 2)) (Num 4) (Num 0) =
     Returns \<lparr>samples = [Num 0, Num 1], sampleRate = Num 4, timestamp = Num 0,
              duration = Num (1 / 2)\<rparr>"
    unfolding createMultiTone_finite [OF a prod] n
    by (simp add: upt_rec numeral_2_eq_2 amplitude_or_1_def ta_get_def Math_PI_def)
  moreover have "multiTone_spec [1] [0] (1 / 4) = 0" by (simp add: multiTone_spec_def)
  ultimately show ?thesis by (simp only: simp_thms)
qed

subsection \<open>C10: the number of samples\<close>

text \<open>
  Claim C10. For a duration \<open>d \<ge> 0\<close> and a sample rate \<open>r \<ge> 0\<close> whose product
  \<^verbatim>\<open>duration * sampleRate\<close>, as binary64 computes it, is the finite number \<open>p\<close>, each of
  the four generators (sine, multi-tone, white noise, chirp) returns a \<^verbatim>\<open>TimeSignal\<close>
  whose samples number \<open>\<lfloor>p\<rfloor>\<close>, that is \<^verbatim>\<open>Math.floor(duration * sampleRate)\<close>, and which
  carries the sample rate and the duration it was given. When that count is 0, as for a
  zero duration or a zero sample rate (then \<open>p = 0\<close>), the generator returns a signal with
  no samples; it does not throw.
\<close>

theorem generators_sample_count:
  fixes frequencies :: "number list"
  assumes "0 \<le> d" "0 \<le> r" and "binary64_mul (Num d) (Num r) = Num p"
  shows "(d = 0 \<or> r = 0 \<longrightarrow> p = 0) \<and>
         (\<exists>sig. createSineWave frequency amplitude (Num d) (Num r) now = Returns sig \<and>
                length (samples sig) = nat \<lfloor>p\<rfloor> \<and> (\<lfloor>p\<rfloor> = 0 \<longrightarrow> samples sig = []) \<and>
                sampleRate sig = Num r \<and> duration sig = Num d) \<and>
         (\<exists>sig. createMultiTone frequencies amplitudes (Num d) (Num r) now = Returns sig \<and>
                length (samples sig) = nat \<lfloor>p\<rfloor> \<and> (\<lfloor>p\<rfloor> = 0 \<longrightarrow> samples sig = []) \<and>
                sampleRate sig = Num r \<and> duration sig = Num d) \<and>
         (\<exists>sig. createWhiteNoise random amplitude (Num d) (Num r) now = Returns sig \<and>
                length (samples sig) = nat \<lfloor>p\<rfloor> \<and> (\<lfloor>p\<rfloor> = 0 \<longrightarrow> samples sig = []) \<and>
                sampleRate sig = Num r \<and> duration sig = Num d) \<and>
         (\<exists>sig. createChirp startFreq endFreq (Num d) (Num r) now = Returns sig \<and>
                length (samples sig) = nat \<lfloor>p\<rfloor> \<and> (\<lfloor>p\<rfloor> = 0 \<longrightarrow> samples sig = []) \<and>
                sampleRate sig = Num r \<and> duration sig = Num d)"
proof (intro conjI)
  show "d = 0 \<or> r = 0 \<longrightarrow> p = 0"
    using assms(3) by (auto simp: round64_0)
  show "\<exists>sig. createSineWave frequency amplitude (Num d) (Num r) now = Returns sig \<and>
                length (samples sig) = nat \<lfloor>p\<rfloor> \<and> (\<lfloor>p\<rfloor> = 0 \<longrightarrow> samples sig = []) \<and>
                sampleRate sig = Num r \<and> duration sig = Num d"
    by (simp only: createSineWave_alloc numSamples_finite [OF assms] and_then.simps) simp
  show "\<exists>sig. createMultiTone frequencies amplitudes (Num d) (Num r) now = Returns sig \<and>
                length (samples sig) = nat \<lfloor>p\<rfloor> \<and> (\<lfloor>p\<rfloor> = 0 \<longrightarrow> samples sig = []) \<and>
                sampleRate sig = Num r \<and> duration sig = Num d"
    by (simp only: createMultiTone_finite [OF assms]) simp
  show "\<exists>sig. createWhiteNoise random amplitude (Num d) (Num r) now = Returns sig \<and>
                length (samples sig) = nat \<lfloor>p\<rfloor> \<and> (\<lfloor>p\<rfloor> = 0 \<longrightarrow> samples sig = []) \<and>
                sampleRate sig = Num r \<and> duration sig = Num d"
    by (simp only: createWhiteNoise_alloc numSamples_finite [OF assms] and_then.simps) simp
  show "\<exists>sig. createChirp startFreq endFreq (Num d) (Num r) now = Returns sig \<and>
                length (samples sig) = nat \<lfloor>p\<rfloor> \<and> (\<lfloor>p\<rfloor> = 0 \<longrightarrow> samples sig = []) \<and>
                sampleRate sig = Num r \<and> duration sig = Num d"
    by (simp only: createChirp_alloc numSamples_finite [OF assms] and_then.simps) simp
qed

theorem generators_sample_count_witness:
  "(\<exists>sig. createSineWave (Num 1000) (Num 1) (Num 0) (Num 44100) (Num 0) = Returns sig \<and>
          samples sig = []) \<and>
   (\<exists>sig. createMultiTone [Num 1000] [] (Num 1) (Num 0) (Num 0) = Returns sig \<and>
          samples sig = []) \<and>
   (\<exists>sig. createWhiteNoise (\<lambda>i. 1 / 2) (Num 1) (Num 1) (Num 4) (Num 0) = Returns sig \<and>
          length (samples sig) = 4) \<and>
   (\<exists>sig. createChirp (Num 100) (Num 400) (Num 1) (Num 4) (Num 0) = Returns sig \<and>
          length (samples sig) = 4) \<and>
   (\<exists>sig. createSineWave (Num 1000) (Num 1) (Num (3152519739159347 / 2 ^ 52)) (Num 10) (Num 0) =
            Returns sig \<and>
          length (samples sig) = 7) \<and>
   \<lfloor>3152519739159347 / 2 ^ 52 * (10::real)\<rfloor> = 6"
proof -
  have a: "(0::real) \<le> 0" "(0::real) \<le> 44100" "(0::real) \<le> 1" "(0::real) \<le> 4"
    "(0::real) \<le> 3152519739159347 / 2 ^ 52" "(0::real) \<le> 10"
    by simp_all
  have p: "binary64_mul (Num 0) (Num 44100) = Num 0" "binary64_mul (Num 1) (Num 0) = Num 0"
    "binary64_mul (Num 1) (Num 4) = Num 4"
    "binary64_mul (Num (3152519739159347 / 2 ^ 52)) (Num 10) = Num 7"
    using round64_07_times_10 by (simp_all add: round64_0 round64_4)
  note g = generators_sample_count [where frequency = "Num 1000"
        and amplitude = "Num 1" and now = "Num 0" and frequencies = "[Num 1000]"
        and amplitudes = "[]" and random = "\<lambda>i. 1 / 2" and startFreq = "Num 100"
        and endFreq = "Num 400"]
  have 1: "\<exists>sig. createSineWave (Num 1000) (Num 1) (Num 0) (Num 44100) (Num 0) = Returns sig \<and>
             samples sig = []"
    using g [OF a(1) a(2) p(1)] by auto
  have 2: "\<exists>sig. createMultiTone [Num 1000] [] (Num 1) (Num 0) (Num 0) = Returns sig \<and>
             samples sig = []"
    using g [OF a(3) a(1) p(2)] by auto
  have 3: "\<exists>sig. createWhiteNoise (\<lambda>i. 1 / 2) (Num 1) (Num 1) (Num 4) (Num 0) = Returns sig \<and>
             length (samples sig) = 4"
    using g [OF a(3) a(4) p(3)] by auto
  have 4: "\<exists>sig. createChirp (Num 100) (Num 400) (Num 1) (Num 4) (Num 0) = Returns sig \<and>
             length (samples sig) = 4"
    using g [OF a(3) a(4) p(3)] by auto
  have 5: "\<exists>sig. createSineWave (Num 1000) (Num 1) (Num (3152519739159347 / 2 ^ 52)) (Num 10) (Num 0) =
            Returns sig \<and> length (samples sig) = 7"
    using g [OF a(5) a(6) p(4)] by auto
  have 6: "\<lfloor>3152519739159347 / 2 ^ 52 * (10::real)\<rfloor> = 6"
    using round64_07_times_10 by (rule conjunct2)
  from 1 2 3 4 5 6 show ?thesis by (simp only: simp_thms)
qed

end
